theory Spec2Isabelle
  imports Complex_Main
begin

section \<open>The opportunity scanner of \<^verbatim>\<open>src/src/tools.ts\<close>\<close>

text \<open>
  The development embeds \<^verbatim>\<open>scanOpportunities\<close>, \<^verbatim>\<open>calculateOpportunityScore\<close>,
  \<^verbatim>\<open>calculateGeckoScore\<close> and the \<^verbatim>\<open>solana_scan\<close> handler.

  Conventions of the embedding.
  \<^item> A JavaScript number is a \<open>jsnum\<close>: a \<open>real\<close> or \<^verbatim>\<open>NaN\<close>. Arithmetic on the reals is
    exact: the rounding of IEEE doubles and the infinities are not modelled.
  \<^item> The fields of a trading pair (the first provider) that the code uses as numbers are
    numbers that may be missing: a \<open>real option\<close>, \<open>None\<close> for \<^verbatim>\<open>undefined\<close>. The primary
    scorer only compares, multiplies and divides them, which converts to a number first,
    and every right operand of its \<^verbatim>\<open>score +=\<close> is a product or a numeric literal: its
    running total is a number at every step.
  \<^item> The price changes of a trending pool (the second provider) are \<open>jsval\<close>s: a number, a
    string or \<^verbatim>\<open>undefined\<close>. That provider sends its amounts as strings (the code parses
    them with \<^verbatim>\<open>parseFloat\<close>), and the secondary scorer adds one price change to the
    running total unconverted, so the total can be a string.
  \<^item> The conversions of the host (\<^verbatim>\<open>parseFloat\<close>, string to number, number to string) are
    fields of a record \<open>js_host\<close>, a parameter of the model.
  \<^item> A thrown exception is a value of type \<open>exn\<close>. The body of a \<^verbatim>\<open>try\<close> returns the
    exception that reaches its \<^verbatim>\<open>catch\<close>, if any, together with the state built so far;
    \<open>try_catch\<close> runs the handler on it.
  \<^item> The network is an environment of provider outcomes. The scanner also records the
    URLs it requests, in order.
\<close>

subsection \<open>JavaScript values\<close>

datatype jsnum = NaN | Num real

datatype exn = Error string | Thrown

datatype jsval = JUndef | JNumber jsnum | JStr string

text \<open>
  The conversions of the host: \<^verbatim>\<open>parseFloat\<close>, the conversion of a string to a number
  (\<^verbatim>\<open>NaN\<close> when the string is not a numeric literal) and of a number to a string.
\<close>

record js_host =
  parseFloat :: "string \<Rightarrow> jsnum"
  toNumber :: "string \<Rightarrow> jsnum"
  numToString :: "real \<Rightarrow> string"

text \<open>\<^verbatim>\<open>x || d\<close> on a number that may be missing: \<^verbatim>\<open>undefined\<close> and \<^verbatim>\<open>0\<close> are falsy.\<close>

definition or_num :: "real option \<Rightarrow> real \<Rightarrow> real" where
  "or_num x d = (case x of None \<Rightarrow> d | Some v \<Rightarrow> if v = 0 then d else v)"

text \<open>\<^verbatim>\<open>x || d\<close> on a string that may be missing: \<^verbatim>\<open>undefined\<close> and \<^verbatim>\<open>''\<close> are falsy.\<close>

definition or_str :: "string option \<Rightarrow> string \<Rightarrow> string" where
  "or_str x d = (case x of None \<Rightarrow> d | Some s \<Rightarrow> if s = [] then d else s)"

text \<open>\<^verbatim>\<open>x || d\<close> on the result of \<^verbatim>\<open>parseFloat\<close>: \<^verbatim>\<open>NaN\<close> and \<^verbatim>\<open>0\<close> are falsy.\<close>

definition or_jsnum :: "jsnum \<Rightarrow> real \<Rightarrow> real" where
  "or_jsnum x d = (case x of NaN \<Rightarrow> d | Num v \<Rightarrow> if v = 0 then d else v)"

text \<open>
  Comparisons of a field that may be missing with a numeric literal: \<^verbatim>\<open>undefined\<close>
  converts to \<^verbatim>\<open>NaN\<close>, and every comparison with \<^verbatim>\<open>NaN\<close> is false.
\<close>

definition gt :: "real option \<Rightarrow> real \<Rightarrow> bool" where
  "gt x k = (case x of None \<Rightarrow> False | Some v \<Rightarrow> v > k)"

definition lt :: "real option \<Rightarrow> real \<Rightarrow> bool" where
  "lt x k = (case x of None \<Rightarrow> False | Some v \<Rightarrow> v < k)"

definition jgt :: "jsnum \<Rightarrow> real \<Rightarrow> bool" where
  "jgt x k = (case x of NaN \<Rightarrow> False | Num v \<Rightarrow> v > k)"

definition jlt :: "jsnum \<Rightarrow> real \<Rightarrow> bool" where
  "jlt x k = (case x of NaN \<Rightarrow> False | Num v \<Rightarrow> v < k)"

text \<open>\<^verbatim>\<open>x / d\<close> for a divisor that is a number other than zero.\<close>

definition jdiv :: "jsnum \<Rightarrow> real \<Rightarrow> jsnum" where
  "jdiv x d = (case x of NaN \<Rightarrow> NaN | Num v \<Rightarrow> Num (v / d))"

text \<open>Sum, difference and product of numbers: \<^verbatim>\<open>NaN\<close> when an operand is \<^verbatim>\<open>NaN\<close>.\<close>

definition jplus :: "jsnum \<Rightarrow> jsnum \<Rightarrow> jsnum" where
  "jplus x y = (case x of NaN \<Rightarrow> NaN | Num a \<Rightarrow> (case y of NaN \<Rightarrow> NaN | Num b \<Rightarrow> Num (a + b)))"

definition jminus :: "jsnum \<Rightarrow> jsnum \<Rightarrow> jsnum" where
  "jminus x y = (case x of NaN \<Rightarrow> NaN | Num a \<Rightarrow> (case y of NaN \<Rightarrow> NaN | Num b \<Rightarrow> Num (a - b)))"

definition jtimes :: "jsnum \<Rightarrow> jsnum \<Rightarrow> jsnum" where
  "jtimes x y = (case x of NaN \<Rightarrow> NaN | Num a \<Rightarrow> (case y of NaN \<Rightarrow> NaN | Num b \<Rightarrow> Num (a * b)))"

text \<open>
  The value of a field inside a guard that has already compared it with a number: the
  guard is false on \<^verbatim>\<open>undefined\<close>, so the default is never read.
\<close>

definition num_of :: "real option \<Rightarrow> real" where
  "num_of x = (case x of None \<Rightarrow> 0 | Some v \<Rightarrow> v)"

text \<open>The conversion of a value to a number and to a string.\<close>

definition to_number :: "js_host \<Rightarrow> jsval \<Rightarrow> jsnum" where
  "to_number h v = (case v of JUndef \<Rightarrow> NaN | JNumber x \<Rightarrow> x | JStr s \<Rightarrow> toNumber h s)"

definition to_string :: "js_host \<Rightarrow> jsval \<Rightarrow> string" where
  "to_string h v =
     (case v of
        JUndef \<Rightarrow> ''undefined''
      | JNumber x \<Rightarrow> (case x of NaN \<Rightarrow> ''NaN'' | Num r \<Rightarrow> numToString h r)
      | JStr s \<Rightarrow> s)"

definition is_string :: "jsval \<Rightarrow> bool" where
  "is_string v = (case v of JStr s \<Rightarrow> True | _ \<Rightarrow> False)"

text \<open>
  \<^verbatim>\<open>a + b\<close>: when an operand is a string the other is converted to a string and the two
  are concatenated; otherwise both are converted to numbers and added.
\<close>

definition js_add :: "js_host \<Rightarrow> jsval \<Rightarrow> jsval \<Rightarrow> jsval" where
  "js_add h a b =
     (if is_string a \<or> is_string b then JStr (to_string h a @ to_string h b)
      else JNumber (jplus (to_number h a) (to_number h b)))"

text \<open>\<^verbatim>\<open>a - b\<close> and \<^verbatim>\<open>a * b\<close> convert both operands to numbers.\<close>

definition js_sub :: "js_host \<Rightarrow> jsval \<Rightarrow> jsval \<Rightarrow> jsval" where
  "js_sub h a b = JNumber (jminus (to_number h a) (to_number h b))"

definition js_mul :: "js_host \<Rightarrow> jsval \<Rightarrow> jsval \<Rightarrow> jsval" where
  "js_mul h a b = JNumber (jtimes (to_number h a) (to_number h b))"

text \<open>\<^verbatim>\<open>a > k\<close> and \<^verbatim>\<open>a < k\<close> for a numeric literal \<open>k\<close>: \<open>a\<close> is converted to a number.\<close>

definition js_gt :: "js_host \<Rightarrow> jsval \<Rightarrow> real \<Rightarrow> bool" where
  "js_gt h a k = jgt (to_number h a) k"

definition js_lt :: "js_host \<Rightarrow> jsval \<Rightarrow> real \<Rightarrow> bool" where
  "js_lt h a k = jlt (to_number h a) k"

text \<open>
  \<^verbatim>\<open>Math.max(0, v)\<close>: \<open>v\<close> is converted to a number, and the result is \<^verbatim>\<open>NaN\<close> when that
  number is \<^verbatim>\<open>NaN\<close>.
\<close>

definition math_max0 :: "js_host \<Rightarrow> jsval \<Rightarrow> jsnum" where
  "math_max0 h v = (case to_number h v of NaN \<Rightarrow> NaN | Num r \<Rightarrow> Num (max 0 r))"

text \<open>
  \<^verbatim>\<open>v || 0\<close> on a value: \<^verbatim>\<open>undefined\<close>, \<^verbatim>\<open>NaN\<close>, \<^verbatim>\<open>0\<close> and \<^verbatim>\<open>''\<close> are falsy; any other
  value, a string too, is kept as it is.
\<close>

definition falsy :: "jsval \<Rightarrow> bool" where
  "falsy v =
     (case v of
        JUndef \<Rightarrow> True
      | JNumber x \<Rightarrow> (case x of NaN \<Rightarrow> True | Num r \<Rightarrow> r = 0)
      | JStr s \<Rightarrow> s = [])"

definition or_zero :: "jsval \<Rightarrow> jsval" where
  "or_zero v = (if falsy v then JNumber (Num 0) else v)"

subsection \<open>Provider payloads\<close>

text \<open>An element of the boosted-token list (\<^verbatim>\<open>/token-boosts/latest/v1\<close>).\<close>

record boost_token =
  chainId :: "string option"
  tokenAddress :: "string option"

text \<open>\<^verbatim>\<open>priceChange\<close> of a pair.\<close>

record raw_change =
  m5 :: "real option"
  h1 :: "real option"
  h6 :: "real option"
  h24 :: "real option"

text \<open>
  An element of \<^verbatim>\<open>pairs\<close> (\<^verbatim>\<open>/latest/dex/tokens/{address}\<close>). The nested optional
  reads \<^verbatim>\<open>pair.baseToken?.symbol\<close>, \<^verbatim>\<open>pair.volume?.h24\<close>, \<^verbatim>\<open>pair.liquidity?.usd\<close>,
  \<^verbatim>\<open>pair.txns?.h24?.buys\<close> and \<^verbatim>\<open>pair.txns?.h24?.sells\<close> are one field each: \<open>None\<close> when
  any object on the path is missing.
\<close>

record raw_pair =
  baseToken_symbol :: "string option"
  pair_priceUsd :: "string option"
  pair_priceChange :: "raw_change option"
  volume_h24 :: "real option"
  liquidity_usd :: "real option"
  pair_fdv :: "real option"
  txns_h24_buys :: "real option"
  txns_h24_sells :: "real option"

text \<open>
  \<^verbatim>\<open>price_change_percentage\<close> of a trending pool: each field is a number, a string or
  missing. \<open>JUndef\<close> also stands for \<^verbatim>\<open>null\<close>: the guards of the scorer and \<^verbatim>\<open>|| 0\<close>
  treat a \<^verbatim>\<open>null\<close> field as they treat a missing one.
\<close>

record gecko_change =
  g_m5 :: jsval
  g_h1 :: jsval
  g_h6 :: jsval
  g_h24 :: jsval

text \<open>\<^verbatim>\<open>attributes\<close> of a trending pool.\<close>

record gecko_attr =
  attr_name :: "string option"
  base_token_price_usd :: "string option"
  price_change_percentage :: "gecko_change option"
  volume_usd_h24 :: "string option"
  reserve_in_usd :: "string option"

text \<open>
  An element of \<^verbatim>\<open>data\<close> (\<^verbatim>\<open>/networks/solana/trending_pools\<close>);
  \<open>base_token_id\<close> is \<^verbatim>\<open>pool.relationships?.base_token?.data?.id\<close>.
\<close>

record gecko_pool =
  base_token_id :: "string option"
  attributes :: "gecko_attr option"

text \<open>\<^verbatim>\<open>pair.priceChange || {}\<close>: the empty object has no field.\<close>

definition empty_change :: raw_change where
  "empty_change = \<lparr>m5 = None, h1 = None, h6 = None, h24 = None\<rparr>"

definition or_change :: "raw_change option \<Rightarrow> raw_change" where
  "or_change x = (case x of None \<Rightarrow> empty_change | Some pc \<Rightarrow> pc)"

text \<open>\<^verbatim>\<open>attr.price_change_percentage || {}\<close>.\<close>

definition empty_gecko_change :: gecko_change where
  "empty_gecko_change = \<lparr>g_m5 = JUndef, g_h1 = JUndef, g_h6 = JUndef, g_h24 = JUndef\<rparr>"

definition or_gecko_change :: "gecko_change option \<Rightarrow> gecko_change" where
  "or_gecko_change x = (case x of None \<Rightarrow> empty_gecko_change | Some pc \<Rightarrow> pc)"

subsection \<open>The primary scorer\<close>

text \<open>Lines 127 to 130: the early-stage bonus, an \<^verbatim>\<open>if\<close>/\<^verbatim>\<open>else if\<close> chain on the valuation.\<close>

definition earlyStageBonus :: "real \<Rightarrow> real" where
  "earlyStageBonus fdv =
     (if fdv > 0 \<and> fdv < 500000 then 30
      else if fdv < 2000000 then 20
      else if fdv < 10000000 then 10
      else 0)"

text \<open>Lines 132 to 135: momentum.\<close>

definition momentumBonus :: "raw_change \<Rightarrow> real" where
  "momentumBonus priceChange =
     (if gt (m5 priceChange) 0 \<and> lt (m5 priceChange) 15 then num_of (m5 priceChange) * 3 else 0)
   + (if gt (h1 priceChange) 0 \<and> lt (h1 priceChange) 30 then num_of (h1 priceChange) * 2 else 0)
   + (if gt (h1 priceChange) 5 \<and> gt (m5 priceChange) 0 then 15 else 0)"

text \<open>Line 138: \<^verbatim>\<open>volume24h / (liquidity || 1)\<close>.\<close>

definition volLiqRatio :: "real \<Rightarrow> real \<Rightarrow> real" where
  "volLiqRatio volume24h liquidity = volume24h / (if liquidity = 0 then 1 else liquidity)"

text \<open>Lines 139 and 140.\<close>

definition volLiqBonus :: "real \<Rightarrow> real" where
  "volLiqBonus r = (if r > 2 then 20 else 0) + (if r > 5 then 15 else 0)"

text \<open>Line 143: \<^verbatim>\<open>buys24h / (sells24h || 1)\<close>.\<close>

definition buyRatio :: "real \<Rightarrow> real \<Rightarrow> real" where
  "buyRatio buys24h sells24h = buys24h / (if sells24h = 0 then 1 else sells24h)"

text \<open>Lines 144 and 145.\<close>

definition buyPressureBonus :: "real \<Rightarrow> real" where
  "buyPressureBonus b = (if b > 13 / 10 then 15 else 0) + (if b > 2 then 10 else 0)"

text \<open>Lines 147 to 152: the points the penalties take off.\<close>

definition penalties :: "raw_change \<Rightarrow> real \<Rightarrow> real \<Rightarrow> real" where
  "penalties priceChange liquidity b =
     (if gt (m5 priceChange) 30 then 25 else 0)
   + (if lt (h1 priceChange) (- 15) then 20 else 0)
   + (if lt (h24 priceChange) (- 40) then 20 else 0)
   + (if liquidity < 15000 then 10 else 0)
   + (if b < 1 / 2 then 15 else 0)"

text \<open>
  \<^verbatim>\<open>calculateOpportunityScore\<close>. The running total \<^verbatim>\<open>score\<close> starts at 0 and each block
  adds a number to it or subtracts one from it without reading it, so the total is the
  sum of the blocks.
\<close>

definition calculateOpportunityScore :: "raw_pair \<Rightarrow> real" where
  "calculateOpportunityScore pair =
     (let priceChange = or_change (pair_priceChange pair);
          liquidity = or_num (liquidity_usd pair) 0;
          volume24h = or_num (volume_h24 pair) 0;
          fdv = or_num (pair_fdv pair) 0;
          buys24h = or_num (txns_h24_buys pair) 0;
          sells24h = or_num (txns_h24_sells pair) 0;
          score = 0 + earlyStageBonus fdv + momentumBonus priceChange
                    + volLiqBonus (volLiqRatio volume24h liquidity)
                    + buyPressureBonus (buyRatio buys24h sells24h)
                    - penalties priceChange liquidity (buyRatio buys24h sells24h)
      in max 0 score)"

subsection \<open>The secondary scorer\<close>

text \<open>
  \<^verbatim>\<open>calculateGeckoScore\<close>, statement by statement: \<open>score0\<close> to \<open>score6\<close> are the values
  of the variable \<^verbatim>\<open>score\<close> after lines 161, 168, 169, 173, 176, 179 and 180. Line 168
  adds a product, a number. Line 169 adds the field itself: when the field is a string,
  \<^verbatim>\<open>score\<close> becomes a string, lines 173 and 176 append to it, and lines 179, 180 and
  \<^verbatim>\<open>Math.max\<close> convert it back to a number, which can be \<^verbatim>\<open>NaN\<close>. The liquidity and the
  volume are parsed from strings and may be \<^verbatim>\<open>NaN\<close>.
\<close>

definition calculateGeckoScore :: "js_host \<Rightarrow> gecko_attr \<Rightarrow> jsnum" where
  "calculateGeckoScore h attr =
     (let priceChange = or_gecko_change (price_change_percentage attr);
          liquidity = parseFloat h (or_str (reserve_in_usd attr) ''0'');
          volume24h = parseFloat h (or_str (volume_usd_h24 attr) ''0'');
          score0 = JNumber (Num 0);
          score1 = (if js_gt h (g_h1 priceChange) 0 \<and> js_lt h (g_h1 priceChange) 30
                    then js_add h score0 (js_mul h (g_h1 priceChange) (JNumber (Num 2)))
                    else score0);
          score2 = (if js_gt h (g_h6 priceChange) 0 \<and> js_lt h (g_h6 priceChange) 50
                    then js_add h score1 (g_h6 priceChange)
                    else score1);
          volLiqRatio = jdiv volume24h (or_jsnum liquidity 1);
          score3 = (if jgt volLiqRatio 2 then js_add h score2 (JNumber (Num 20)) else score2);
          score4 = js_add h score3 (JNumber (Num 10));
          score5 = (if js_lt h (g_h1 priceChange) (- 15)
                    then js_sub h score4 (JNumber (Num 20)) else score4);
          score6 = (if jlt liquidity 15000 then js_sub h score5 (JNumber (Num 10)) else score5)
      in math_max0 h score6)"

subsection \<open>Candidates\<close>

record price_change =
  pc_m5 :: jsval
  pc_h1 :: jsval
  pc_h6 :: jsval
  pc_h24 :: jsval

text \<open>
  The object pushed on \<^verbatim>\<open>opportunities\<close>. The mint of a boosted candidate is
  \<^verbatim>\<open>token.tokenAddress\<close>, which may be \<^verbatim>\<open>undefined\<close>; price, volume and liquidity of a
  trending candidate come from \<^verbatim>\<open>parseFloat\<close>, its price changes are the fields of the
  payload, and its score is the result of \<^verbatim>\<open>Math.max\<close>, a number or \<^verbatim>\<open>NaN\<close>.
\<close>

record candidate =
  mint :: "string option"
  symbol :: string
  priceUsd :: jsnum
  priceChange :: price_change
  volume24h :: jsnum
  liquidity :: jsnum
  fdv :: real
  source :: string
  score :: jsnum

text \<open>\<^verbatim>\<open>pair.priceChange?.f || 0\<close> for a field \<open>f\<close> of the price change of a pair.\<close>

definition change_or0 :: "raw_change option \<Rightarrow> (raw_change \<Rightarrow> real option) \<Rightarrow> jsval" where
  "change_or0 x f = JNumber (Num (or_num (case x of None \<Rightarrow> None | Some pc \<Rightarrow> f pc) 0))"

definition normalize_change :: "raw_change option \<Rightarrow> price_change" where
  "normalize_change x =
     \<lparr>pc_m5 = change_or0 x m5, pc_h1 = change_or0 x h1,
      pc_h6 = change_or0 x h6, pc_h24 = change_or0 x h24\<rparr>"

text \<open>\<^verbatim>\<open>attr.price_change_percentage?.f || 0\<close> for a field \<open>f\<close> of a pool.\<close>

definition gecko_change_or0 :: "gecko_change option \<Rightarrow> (gecko_change \<Rightarrow> jsval) \<Rightarrow> jsval" where
  "gecko_change_or0 x f = or_zero (case x of None \<Rightarrow> JUndef | Some pc \<Rightarrow> f pc)"

definition normalize_gecko_change :: "gecko_change option \<Rightarrow> price_change" where
  "normalize_gecko_change x =
     \<lparr>pc_m5 = gecko_change_or0 x g_m5, pc_h1 = gecko_change_or0 x g_h1,
      pc_h6 = gecko_change_or0 x g_h6, pc_h24 = gecko_change_or0 x g_h24\<rparr>"

text \<open>Lines 46 to 61.\<close>

definition boosted_candidate :: "js_host \<Rightarrow> boost_token \<Rightarrow> raw_pair \<Rightarrow> candidate" where
  "boosted_candidate h token pair =
     \<lparr>mint = tokenAddress token,
      symbol = or_str (baseToken_symbol pair) ''Unknown'',
      priceUsd = parseFloat h (or_str (pair_priceUsd pair) ''0''),
      priceChange = normalize_change (pair_priceChange pair),
      volume24h = Num (or_num (volume_h24 pair) 0),
      liquidity = Num (or_num (liquidity_usd pair) 0),
      fdv = or_num (pair_fdv pair) 0,
      source = ''dexscreener-boosted'',
      score = Num (calculateOpportunityScore pair)\<rparr>"

text \<open>\<^verbatim>\<open>attr.name?.split('/')[0]\<close>: the part of the name before the first slash.\<close>

definition name_head :: "string option \<Rightarrow> string option" where
  "name_head x = (case x of None \<Rightarrow> None | Some s \<Rightarrow> Some (takeWhile (\<lambda>c. c \<noteq> CHR ''/'') s))"

text \<open>Lines 79 to 94.\<close>

definition gecko_candidate :: "js_host \<Rightarrow> string \<Rightarrow> gecko_attr \<Rightarrow> candidate" where
  "gecko_candidate h tokenAddr attr =
     \<lparr>mint = Some tokenAddr,
      symbol = or_str (name_head (attr_name attr)) ''Unknown'',
      priceUsd = parseFloat h (or_str (base_token_price_usd attr) ''0''),
      priceChange = normalize_gecko_change (price_change_percentage attr),
      volume24h = parseFloat h (or_str (volume_usd_h24 attr) ''0''),
      liquidity = parseFloat h (or_str (reserve_in_usd attr) ''0''),
      fdv = 0,
      source = ''geckoterminal-trending'',
      score = calculateGeckoScore h attr\<rparr>"

subsection \<open>Array and string helpers of the host\<close>

text \<open>
  \<^verbatim>\<open>xs.slice(0, n)\<close> for an integer \<open>n\<close>: a negative \<open>n\<close> counts from the end of the
  array.
\<close>

definition slice0 :: "int \<Rightarrow> 'a list \<Rightarrow> 'a list" where
  "slice0 n xs = (if n < 0 then take (nat (int (length xs) + n)) xs else take (nat n) xs)"

text \<open>\<^verbatim>\<open>xs.findIndex(P)\<close>: the index of the first element that satisfies \<open>P\<close>, or \<open>-1\<close>.\<close>

fun findIndex :: "('a \<Rightarrow> bool) \<Rightarrow> 'a list \<Rightarrow> int" where
  "findIndex P [] = - 1"
| "findIndex P (x # xs) =
     (if P x then 0 else (let i = findIndex P xs in if i < 0 then - 1 else i + 1))"

text \<open>
  \<^verbatim>\<open>s.replace(pat, rep)\<close> with a string pattern: only the first occurrence of \<open>pat\<close>,
  wherever it is in \<open>s\<close>, is replaced.
\<close>

fun replace_first :: "string \<Rightarrow> string \<Rightarrow> string \<Rightarrow> string" where
  "replace_first pat rep [] = (if pat = [] then rep else [])"
| "replace_first pat rep (c # cs) =
     (if take (length pat) (c # cs) = pat then rep @ drop (length pat) (c # cs)
      else c # replace_first pat rep cs)"

text \<open>A value that may be \<^verbatim>\<open>undefined\<close> inside a template string.\<close>

definition template :: "string option \<Rightarrow> string" where
  "template x = (case x of None \<Rightarrow> ''undefined'' | Some s \<Rightarrow> s)"

text \<open>
  \<^verbatim>\<open>xs.sort(cmp)\<close>. The host calls \<open>cmp\<close> on pairs of elements and reads a result that
  is \<^verbatim>\<open>NaN\<close> as 0. For a comparator that orders the elements consistently the result is
  the stable sort, which the insertion sort below computes: an element goes behind the
  elements that \<open>cmp\<close> puts strictly before it. When \<open>cmp\<close> answers \<^verbatim>\<open>NaN\<close> the
  comparator is not consistent and the order is left to the host; the insertion sort
  then keeps the two elements in their order.
\<close>

fun insort_cmp :: "('a \<Rightarrow> 'a \<Rightarrow> jsnum) \<Rightarrow> 'a \<Rightarrow> 'a list \<Rightarrow> 'a list" where
  "insort_cmp cmp x [] = [x]"
| "insort_cmp cmp x (y # ys) =
     (if jgt (cmp x y) 0 then y # insort_cmp cmp x ys else x # y # ys)"

definition sort_cmp :: "('a \<Rightarrow> 'a \<Rightarrow> jsnum) \<Rightarrow> 'a list \<Rightarrow> 'a list" where
  "sort_cmp cmp xs = foldr (insort_cmp cmp) xs []"

subsection \<open>Exceptions\<close>

text \<open>
  \<^verbatim>\<open>try { body } catch (x) { handler }\<close> on the outcome of the body: the handler runs on
  the exception and the state the body has left.
\<close>

definition try_catch :: "exn option \<times> 's \<Rightarrow> (exn \<Rightarrow> 's \<Rightarrow> exn option \<times> 's) \<Rightarrow> exn option \<times> 's" where
  "try_catch body handler = (case body of (None, st) \<Rightarrow> (None, st) | (Some x, st) \<Rightarrow> handler x st)"

text \<open>A handler that only calls \<^verbatim>\<open>console.warn\<close>: it returns, and the state is as it was.\<close>

definition console_warn :: "exn \<Rightarrow> 's \<Rightarrow> exn option \<times> 's" where
  "console_warn x st = (None, st)"

text \<open>The same for a body that returns a value.\<close>

definition try_return :: "exn + 'a \<Rightarrow> (exn \<Rightarrow> exn + 'a) \<Rightarrow> exn + 'a" where
  "try_return body handler = (case body of Inl x \<Rightarrow> handler x | Inr v \<Rightarrow> Inr v)"

subsection \<open>The environment\<close>

text \<open>
  What the host and the network give to one call of \<^verbatim>\<open>scanOpportunities\<close>.
  \<^item> \<open>fetch_boosted\<close>: the outcome of lines 35 and 36 as line 37 reads it. \<open>Inl\<close>: the
    request, the decoding of the body, or \<^verbatim>\<open>.filter\<close> on a body that is not an array
    throws. \<open>Inr\<close>: the array (\<open>[]\<close> for a falsy body, through \<^verbatim>\<open>boostedData || []\<close>).
  \<^item> \<open>fetch_token i url\<close>: the outcome of lines 41 and 42 for the \<open>i\<close>-th token of the
    loop. \<open>Inl\<close>: the request throws or the body cannot be read. \<open>Inr\<close>: the array
    \<^verbatim>\<open>tokenData.pairs\<close> (\<open>[]\<close> when it is missing).
  \<^item> \<open>fetch_trending\<close>: the outcome of lines 70 and 71 as line 73 reads it. \<open>Inr\<close>: the
    array \<^verbatim>\<open>trendingData.data\<close> (\<open>[]\<close> when it is missing).
\<close>

record env =
  host :: js_host
  fetch_boosted :: "exn + boost_token list"
  fetch_token :: "nat \<Rightarrow> string \<Rightarrow> exn + raw_pair list"
  fetch_trending :: "exn + gecko_pool list"

definition boosted_url :: string where
  "boosted_url = ''https://api.dexscreener.com/token-boosts/latest/v1''"

definition token_url :: "boost_token \<Rightarrow> string" where
  "token_url token = ''https://api.dexscreener.com/latest/dex/tokens/'' @ template (tokenAddress token)"

definition trending_url :: string where
  "trending_url = ''https://api.geckoterminal.com/api/v2/networks/solana/trending_pools?include=base_token''"

subsection \<open>The scan\<close>

text \<open>The array \<^verbatim>\<open>opportunities\<close> and the URLs requested so far.\<close>

record scan_state =
  opportunities :: "candidate list"
  requests :: "string list"

text \<open>
  Lines 41 to 62, the body of the inner \<^verbatim>\<open>try\<close> of the token loop: the exception that
  reaches its \<^verbatim>\<open>catch\<close>, if any, and the state.
\<close>

definition boosted_item_try :: "env \<Rightarrow> nat \<Rightarrow> boost_token \<Rightarrow> scan_state \<Rightarrow> exn option \<times> scan_state" where
  "boosted_item_try e i token st =
     (let st' = st\<lparr>requests := requests st @ [token_url token]\<rparr>
      in case fetch_token e i (token_url token) of
           Inl x \<Rightarrow> (Some x, st')
         | Inr pairs \<Rightarrow>
             (case pairs of
                [] \<Rightarrow> (None, st')
              | pair # _ \<Rightarrow>
                  (None, st'\<lparr>opportunities :=
                     opportunities st' @ [boosted_candidate (host e) token pair]\<rparr>)))"

text \<open>
  Lines 39 to 66, the loop over the tokens: each turn is a \<^verbatim>\<open>try\<close> whose handler
  (line 64) only logs. An exception that left a turn would leave the loop.
\<close>

fun boosted_loop :: "env \<Rightarrow> nat \<Rightarrow> boost_token list \<Rightarrow> scan_state \<Rightarrow> exn option \<times> scan_state" where
  "boosted_loop e i [] st = (None, st)"
| "boosted_loop e i (token # rest) st =
     (case try_catch (boosted_item_try e i token st) console_warn of
        (Some x, st') \<Rightarrow> (Some x, st')
      | (None, st') \<Rightarrow> boosted_loop e (Suc i) rest st')"

text \<open>
  Lines 73 to 96, the loop over the pools. Reading \<^verbatim>\<open>attr.name\<close> of a pool without
  \<^verbatim>\<open>attributes\<close> throws a \<^verbatim>\<open>TypeError\<close>, which leaves the loop.
\<close>

fun trending_loop :: "js_host \<Rightarrow> gecko_pool list \<Rightarrow> candidate list \<Rightarrow> exn option \<times> candidate list" where
  "trending_loop h [] ops = (None, ops)"
| "trending_loop h (pool # rest) ops =
     (let baseTokenId = or_str (base_token_id pool) [];
          tokenAddr = replace_first ''solana_'' [] baseTokenId
      in if tokenAddr \<noteq> [] \<and> length tokenAddr > 10 then
           (case attributes pool of
              None \<Rightarrow> (Some (Error ''Cannot read properties of undefined''), ops)
            | Some attr \<Rightarrow> trending_loop h rest (ops @ [gecko_candidate h tokenAddr attr]))
         else trending_loop h rest ops)"

text \<open>Lines 70 to 96, the body of the \<^verbatim>\<open>try\<close> around the trending pools.\<close>

definition trending_try :: "env \<Rightarrow> int \<Rightarrow> scan_state \<Rightarrow> exn option \<times> scan_state" where
  "trending_try e maxResults st =
     (let st' = st\<lparr>requests := requests st @ [trending_url]\<rparr>
      in case fetch_trending e of
           Inl x \<Rightarrow> (Some x, st')
         | Inr data \<Rightarrow>
             (case trending_loop (host e) (slice0 maxResults data) (opportunities st') of
                (x, ops) \<Rightarrow> (x, st'\<lparr>opportunities := ops\<rparr>)))"

text \<open>
  Lines 34 to 99, the body of the outer \<^verbatim>\<open>try\<close>: the request for the boosted tokens,
  the loop over them, then the \<^verbatim>\<open>try\<close> around the trending pools, whose handler
  (line 98) only logs. An exception of lines 35 to 37 leaves the body at once and skips
  everything after them.
\<close>

definition scan_try :: "env \<Rightarrow> string \<Rightarrow> int \<Rightarrow> exn option \<times> scan_state" where
  "scan_try e chain maxResults =
     (let st0 = \<lparr>opportunities = [], requests = [boosted_url]\<rparr>
      in case fetch_boosted e of
           Inl x \<Rightarrow> (Some x, st0)
         | Inr boostedData \<Rightarrow>
             (let solTokens = slice0 maxResults (filter (\<lambda>t. chainId t = Some ''solana'') boostedData)
              in case boosted_loop e 0 solTokens st0 of
                   (Some x, st1) \<Rightarrow> (Some x, st1)
                 | (None, st1) \<Rightarrow> try_catch (trending_try e maxResults st1) console_warn))"

text \<open>Lines 105 to 107: an element stays when it is the first one with its mint.\<close>

definition uniqueOpportunities :: "candidate list \<Rightarrow> candidate list" where
  "uniqueOpportunities self =
     map snd (filter (\<lambda>(index, opp). int index = findIndex (\<lambda>out. mint out = mint opp) self)
                (enumerate 0 self))"

text \<open>Line 110: \<^verbatim>\<open>sort((a, b) => b.score - a.score)\<close>.\<close>

definition compare_score :: "candidate \<Rightarrow> candidate \<Rightarrow> jsnum" where
  "compare_score a b = jminus (score b) (score a)"

definition sort_by_score :: "candidate list \<Rightarrow> candidate list" where
  "sort_by_score xs = sort_cmp compare_score xs"

text \<open>
  Lines 33 to 102, the outer \<^verbatim>\<open>try\<close> statement, whose handler (line 101) only logs: the
  exception that leaves the statement, if any, and the state.
\<close>

definition scan_statement :: "env \<Rightarrow> string \<Rightarrow> int \<Rightarrow> exn option \<times> scan_state" where
  "scan_statement e chain maxResults = try_catch (scan_try e chain maxResults) console_warn"

definition scan_collect :: "env \<Rightarrow> string \<Rightarrow> int \<Rightarrow> scan_state" where
  "scan_collect e chain maxResults = snd (scan_statement e chain maxResults)"

text \<open>
  \<^verbatim>\<open>scanOpportunities\<close>: \<open>Inl\<close> when an exception leaves the \<^verbatim>\<open>try\<close> statement, and the
  function with it; otherwise lines 104 to 111, which work on the array of candidates
  and do not throw. \<open>scan_requests\<close> is the list of the requests it has issued.
\<close>

definition scanOpportunities :: "env \<Rightarrow> string \<Rightarrow> int \<Rightarrow> exn + candidate list" where
  "scanOpportunities e chain maxResults =
     (case scan_statement e chain maxResults of
        (Some x, st) \<Rightarrow> Inl x
      | (None, st) \<Rightarrow>
          Inr (slice0 maxResults (sort_by_score (uniqueOpportunities (opportunities st)))))"

definition scan_requests :: "env \<Rightarrow> string \<Rightarrow> int \<Rightarrow> string list" where
  "scan_requests e chain maxResults = requests (scan_collect e chain maxResults)"

subsection \<open>The \<^verbatim>\<open>solana_scan\<close> handler\<close>

datatype scan_response = ScanSuccess "candidate list" nat | ScanFailure string

text \<open>
  Lines 337 to 349 on the outcome of the awaited call (\<open>Inl\<close> when it throws): the body
  of the \<^verbatim>\<open>try\<close> returns the success object, the handler returns the failure object with
  \<^verbatim>\<open>error.message\<close>, or \<^verbatim>\<open>'Scan failed'\<close> for a thrown value that is not an \<^verbatim>\<open>Error\<close>. The
  result is \<open>Inl\<close> when an exception leaves the handler function.
\<close>

definition solana_scan_on :: "exn + candidate list \<Rightarrow> exn + scan_response" where
  "solana_scan_on awaited =
     try_return
       (case awaited of
          Inl x \<Rightarrow> Inl x
        | Inr opps \<Rightarrow> Inr (ScanSuccess opps (length opps)))
       (\<lambda>x. Inr (ScanFailure (case x of Error msg \<Rightarrow> msg | Thrown \<Rightarrow> ''Scan failed'')))"

text \<open>The defaults of the parameters: \<^verbatim>\<open>chain = 'solana'\<close>, \<^verbatim>\<open>maxResults = 5\<close>.\<close>

definition chain_or_default :: "string option \<Rightarrow> string" where
  "chain_or_default chain = (case chain of None \<Rightarrow> ''solana'' | Some c \<Rightarrow> c)"

definition maxResults_or_default :: "int option \<Rightarrow> int" where
  "maxResults_or_default maxResults = (case maxResults of None \<Rightarrow> 5 | Some n \<Rightarrow> n)"

definition solana_scan :: "env \<Rightarrow> string option \<Rightarrow> int option \<Rightarrow> exn + scan_response" where
  "solana_scan e chain maxResults =
     solana_scan_on
       (scanOpportunities e (chain_or_default chain) (maxResults_or_default maxResults))"

subsection \<open>Notions used to state the properties\<close>

text \<open>
  The ratio as the specification words it: \<open>r = volume24h / max(liquidity, 1)\<close>. It is
  compared with \<open>volLiqRatio\<close>, the ratio of line 138.
\<close>

definition volLiqRatio_spec :: "real \<Rightarrow> real \<Rightarrow> real" where
  "volLiqRatio_spec vol liq = vol / max liq 1"

text \<open>The address the trending loop extracts from a pool (lines 74 and 75).\<close>

definition extracted_address :: "gecko_pool \<Rightarrow> string" where
  "extracted_address pool = replace_first ''solana_'' [] (or_str (base_token_id pool) [])"

text \<open>\<^verbatim>\<open>x >= 0\<close> on a number: false on \<^verbatim>\<open>NaN\<close>.\<close>

definition nonnegative :: "jsnum \<Rightarrow> bool" where
  "nonnegative x = (case x of NaN \<Rightarrow> False | Num r \<Rightarrow> 0 \<le> r)"

text \<open>\<^verbatim>\<open>a.score >= b.score\<close>: false when a score is \<^verbatim>\<open>NaN\<close>.\<close>

definition score_ge :: "candidate \<Rightarrow> candidate \<Rightarrow> bool" where
  "score_ge a b =
     (case score a of NaN \<Rightarrow> False | Num x \<Rightarrow> (case score b of NaN \<Rightarrow> False | Num y \<Rightarrow> y \<le> x))"

text \<open>
  The candidates of an array that are the first with their mint: what the filter of
  lines 105 to 107 is to keep.
\<close>

definition first_occurrences :: "candidate list \<Rightarrow> candidate set" where
  "first_occurrences xs = {c \<in> set xs. find (\<lambda>out. mint out = mint c) xs = Some c}"

subsection \<open>Concrete payloads\<close>

text \<open>
  Stand-ins for the conversions of the host, for the concrete payloads below.
  \<open>parseFloat_digits\<close> agrees with \<^verbatim>\<open>parseFloat\<close> on non-empty strings of decimal digits.
  \<open>toNumber_decimal\<close> agrees with the conversion of a string to a number on the strings
  made of decimal digits and dots: digits with at most one dot are a decimal literal
  (the empty string is 0), and a string with two dots is \<^verbatim>\<open>NaN\<close>.
  \<open>numToString_table\<close> gives the host's string for 0, 2.4, 10 and 20, the numbers that
  the payloads below make the scorer convert; it is not used on other numbers.
\<close>

definition is_digit :: "char \<Rightarrow> bool" where
  "is_digit c = (48 \<le> (of_char c :: nat) \<and> (of_char c :: nat) \<le> 57)"

fun digits_value :: "string \<Rightarrow> nat \<Rightarrow> nat option" where
  "digits_value [] acc = Some acc"
| "digits_value (c # cs) acc =
     (if 48 \<le> (of_char c :: nat) \<and> (of_char c :: nat) \<le> 57
      then digits_value cs (10 * acc + (of_char c - 48)) else None)"

definition parseFloat_digits :: "string \<Rightarrow> jsnum" where
  "parseFloat_digits s =
     (if s = [] then NaN else case digits_value s 0 of None \<Rightarrow> NaN | Some k \<Rightarrow> Num (real k))"

definition toNumber_decimal :: "string \<Rightarrow> jsnum" where
  "toNumber_decimal s =
     (let ip = takeWhile is_digit s; rest = dropWhile is_digit s
      in case rest of
           [] \<Rightarrow> (case digits_value ip 0 of None \<Rightarrow> NaN | Some k \<Rightarrow> Num (real k))
         | c # fp \<Rightarrow>
             (if c = CHR ''.'' \<and> \<not> (ip = [] \<and> fp = []) then
                (case digits_value ip 0 of
                   None \<Rightarrow> NaN
                 | Some k \<Rightarrow>
                     (case digits_value fp 0 of
                        None \<Rightarrow> NaN
                      | Some f \<Rightarrow> Num (real k + real f / 10 ^ length fp)))
              else NaN))"

definition numToString_table :: "real \<Rightarrow> string" where
  "numToString_table x =
     (if x = 0 then ''0'' else if x = 12 / 5 then ''2.4''
      else if x = 10 then ''10'' else if x = 20 then ''20'' else [])"

definition host_stub :: js_host where
  "host_stub = \<lparr>parseFloat = parseFloat_digits, toNumber = toNumber_decimal,
     numToString = numToString_table\<rparr>"

text \<open>The pair of the scoring scenario of the specification.\<close>

definition pair_scenario :: raw_pair where
  "pair_scenario = \<lparr>baseToken_symbol = Some ''ABC'', pair_priceUsd = Some ''1'',
     pair_priceChange = Some \<lparr>m5 = Some 5, h1 = Some 10, h6 = Some 0, h24 = Some 0\<rparr>,
     volume_h24 = Some 150000, liquidity_usd = Some 50000, pair_fdv = Some 300000,
     txns_h24_buys = Some 120, txns_h24_sells = Some 80\<rparr>"

text \<open>
  A pair whose valuation is 0 and that earns nothing else: no price change, no volume,
  liquidity above the floor, as many buys as sells.
\<close>

definition pair_fdv0 :: raw_pair where
  "pair_fdv0 = \<lparr>baseToken_symbol = Some ''ABC'', pair_priceUsd = Some ''1'',
     pair_priceChange = None,
     volume_h24 = Some 0, liquidity_usd = Some 50000, pair_fdv = Some 0,
     txns_h24_buys = Some 100, txns_h24_sells = Some 100\<rparr>"

text \<open>The attributes of a pool whose price changes are numbers.\<close>

definition attr_hot :: gecko_attr where
  "attr_hot = \<lparr>attr_name = Some ''HOT/SOL'', base_token_price_usd = Some ''2'',
     price_change_percentage =
       Some \<lparr>g_m5 = JNumber (Num 1), g_h1 = JNumber (Num 10),
             g_h6 = JNumber (Num 20), g_h24 = JNumber (Num 0)\<rparr>,
     volume_usd_h24 = Some ''200000'', reserve_in_usd = Some ''50000''\<rparr>"

text \<open>
  The attributes of two pools as the trending provider sends them, the price changes as
  strings: \<^verbatim>\<open>h1: '1.2', h6: '5.3'\<close> and \<^verbatim>\<open>h1: '10', h6: '20'\<close>; volume 200000 over a
  reserve of 50000 in both.
\<close>

definition attr_a :: gecko_attr where
  "attr_a = \<lparr>attr_name = Some ''AAA/SOL'', base_token_price_usd = Some ''2'',
     price_change_percentage =
       Some \<lparr>g_m5 = JStr ''0.1'', g_h1 = JStr ''1.2'', g_h6 = JStr ''5.3'', g_h24 = JStr ''7''\<rparr>,
     volume_usd_h24 = Some ''200000'', reserve_in_usd = Some ''50000''\<rparr>"

definition attr_b :: gecko_attr where
  "attr_b = \<lparr>attr_name = Some ''BBB/SOL'', base_token_price_usd = Some ''2'',
     price_change_percentage =
       Some \<lparr>g_m5 = JStr ''1'', g_h1 = JStr ''10'', g_h6 = JStr ''20'', g_h24 = JStr ''30''\<rparr>,
     volume_usd_h24 = Some ''200000'', reserve_in_usd = Some ''50000''\<rparr>"

text \<open>Three pools whose extracted addresses have 10, 11 and 12 characters.\<close>

definition pool10 :: gecko_pool where
  "pool10 = \<lparr>base_token_id = Some ''solana_ABCDEFGHIJ'', attributes = Some attr_hot\<rparr>"

definition pool11 :: gecko_pool where
  "pool11 = \<lparr>base_token_id = Some ''solana_ABCDEFGHIJK'', attributes = Some attr_hot\<rparr>"

definition pool12 :: gecko_pool where
  "pool12 = \<lparr>base_token_id = Some ''solana_ABCDEFGHIJKL'', attributes = Some attr_hot\<rparr>"

text \<open>The two pools with string price changes.\<close>

definition pool_a :: gecko_pool where
  "pool_a = \<lparr>base_token_id = Some ''solana_AAAAAAAAAAAA'', attributes = Some attr_a\<rparr>"

definition pool_b :: gecko_pool where
  "pool_b = \<lparr>base_token_id = Some ''solana_BBBBBBBBBBBB'', attributes = Some attr_b\<rparr>"

definition token11 :: boost_token where
  "token11 = \<lparr>chainId = Some ''solana'', tokenAddress = Some ''ABCDEFGHIJK''\<rparr>"

text \<open>
  Both providers answer: one boosted token, whose mint is also the base token of the
  first trending pool, and a second trending pool.
\<close>

definition env_scan :: env where
  "env_scan = \<lparr>host = host_stub,
     fetch_boosted = Inr [token11],
     fetch_token = (\<lambda>i url. Inr [pair_fdv0]),
     fetch_trending = Inr [pool11, pool12]\<rparr>"

text \<open>The same, but the request for the boosted tokens fails.\<close>

definition env_boosted_down :: env where
  "env_boosted_down = env_scan\<lparr>fetch_boosted := Inl (Error ''fetch failed'')\<rparr>"

text \<open>The same as \<open>env_scan\<close>, but the trending provider answers the two pools with strings.\<close>

definition env_strings :: env where
  "env_strings = env_scan\<lparr>fetch_trending := Inr [pool_a, pool_b]\<rparr>"

definition cand_boosted :: candidate where
  "cand_boosted = boosted_candidate host_stub token11 pair_fdv0"

definition cand_same :: candidate where
  "cand_same = gecko_candidate host_stub ''ABCDEFGHIJK'' attr_hot"

definition cand_other :: candidate where
  "cand_other = gecko_candidate host_stub ''ABCDEFGHIJKL'' attr_hot"

definition cand_a :: candidate where
  "cand_a = gecko_candidate host_stub ''AAAAAAAAAAAA'' attr_a"

definition cand_b :: candidate where
  "cand_b = gecko_candidate host_stub ''BBBBBBBBBBBB'' attr_b"

text \<open>A value that is a number other than \<^verbatim>\<open>NaN\<close>.\<close>

definition is_num :: "jsval \<Rightarrow> bool" where
  "is_num v = (\<exists>r. v = JNumber (Num r))"

section \<open>Properties\<close>

subsection \<open>Arrays: \<open>findIndex\<close>, the duplicate filter, the slice\<close>

lemma findIndex_find: "findIndex P xs = int i \<Longrightarrow> find P xs = Some (xs ! i)"
proof (induction xs arbitrary: i)
  case Nil
  then show ?case by simp
next
  case (Cons x xs)
  show ?case
  proof (cases "P x")
    case True
    with Cons.prems show ?thesis by simp
  next
    case False
    with Cons.prems obtain k where k: "i = Suc k" "findIndex P xs = int k"
      by (cases i) (auto simp: Let_def split: if_splits)
    with False Cons.IH [of k] show ?thesis by simp
  qed
qed

lemma find_findIndex: "find P xs = Some c \<Longrightarrow> \<exists>i<length xs. findIndex P xs = int i \<and> xs ! i = c"
proof (induction xs)
  case Nil
  then show ?case by simp
next
  case (Cons x xs)
  show ?case
  proof (cases "P x")
    case True
    with Cons.prems show ?thesis by auto
  next
    case False
    with Cons.prems have "find P xs = Some c" by simp
    with Cons.IH obtain k where "k < length xs" "findIndex P xs = int k" "xs ! k = c" by blast
    with False have "Suc k < length (x # xs) \<and> findIndex P (x # xs) = int (Suc k) \<and> (x # xs) ! Suc k = c"
      by simp
    then show ?thesis by blast
  qed
qed

lemma unique_mem:
  "c \<in> set (uniqueOpportunities xs) \<longleftrightarrow>
   (\<exists>i<length xs. xs ! i = c \<and> findIndex (\<lambda>out. mint out = mint c) xs = int i)"
  by (force simp: uniqueOpportunities_def in_set_enumerate_eq image_iff)

lemma unique_first:
  "c \<in> set (uniqueOpportunities xs) \<Longrightarrow> find (\<lambda>out. mint out = mint c) xs = Some c"
  using findIndex_find unique_mem by fastforce

lemma set_unique: "set (uniqueOpportunities xs) = first_occurrences xs"
proof (intro set_eqI iffI)
  fix c assume c: "c \<in> set (uniqueOpportunities xs)"
  then have "c \<in> set xs" unfolding unique_mem by auto
  with unique_first [OF c] show "c \<in> first_occurrences xs"
    by (simp add: first_occurrences_def)
next
  fix c assume "c \<in> first_occurrences xs"
  then have "find (\<lambda>out. mint out = mint c) xs = Some c"
    by (simp add: first_occurrences_def)
  from find_findIndex [OF this] show "c \<in> set (uniqueOpportunities xs)"
    unfolding unique_mem by blast
qed

lemma find_mint_exists: "c \<in> set xs \<Longrightarrow> \<exists>d. find (\<lambda>out. mint out = mint c) xs = Some d"
  by (cases "find (\<lambda>out. mint out = mint c) xs") (auto simp: find_None_iff)

lemma mint_first_occurrences: "mint ` first_occurrences xs = mint ` set xs"
proof (intro set_eqI iffI)
  fix m assume "m \<in> mint ` first_occurrences xs"
  then show "m \<in> mint ` set xs" by (auto simp: first_occurrences_def)
next
  fix m assume "m \<in> mint ` set xs"
  then obtain c where c: "c \<in> set xs" "m = mint c" by blast
  from find_mint_exists [OF c(1)] obtain d where d: "find (\<lambda>out. mint out = mint c) xs = Some d"
    by blast
  then have dm: "d \<in> set xs" "mint d = mint c" by (auto simp: find_Some_iff)
  with d have "find (\<lambda>out. mint out = mint d) xs = Some d" by simp
  with dm have "d \<in> first_occurrences xs" by (simp add: first_occurrences_def)
  moreover from dm c have "m = mint d" by simp
  ultimately show "m \<in> mint ` first_occurrences xs" by (rule rev_image_eqI)
qed

lemma unique_distinct: "distinct (map mint (uniqueOpportunities xs))"
proof -
  let ?Q = "\<lambda>(index, opp). int index = findIndex (\<lambda>out. mint out = mint opp) xs"
  let ?ys = "filter ?Q (enumerate 0 xs)"
  have d: "distinct ?ys" by simp
  have "inj_on (mint \<circ> snd) (set ?ys)"
  proof (rule inj_onI)
    fix p q
    assume p: "p \<in> set ?ys" and q: "q \<in> set ?ys" and eq: "(mint \<circ> snd) p = (mint \<circ> snd) q"
    from p q eq have "int (fst p) = int (fst q)" by (auto simp: case_prod_beta)
    moreover from p q have "snd p = xs ! fst p" "snd q = xs ! fst q"
      by (auto simp: in_set_enumerate_eq)
    ultimately show "p = q" by (simp add: prod_eq_iff)
  qed
  with d have "distinct (map (mint \<circ> snd) ?ys)" by (simp add: distinct_map)
  then show ?thesis by (simp add: uniqueOpportunities_def)
qed

lemma set_slice0: "set (slice0 n xs) \<subseteq> set xs"
  by (auto simp: slice0_def dest: in_set_takeD)

lemma length_slice0: "0 \<le> n \<Longrightarrow> int (length (slice0 n xs)) \<le> n"
  by (simp add: slice0_def)

lemma distinct_map_slice0: "distinct (map f xs) \<Longrightarrow> distinct (map f (slice0 n xs))"
  by (simp add: slice0_def take_map [symmetric])

lemma sorted_slice0: "sorted_wrt R xs \<Longrightarrow> sorted_wrt R (slice0 n xs)"
  by (simp add: slice0_def sorted_wrt_take)

subsection \<open>The sort\<close>

lemma set_insort_cmp: "set (insort_cmp cmp x ys) = insert x (set ys)"
  by (induction ys) auto

lemma set_sort_cmp: "set (sort_cmp cmp xs) = set xs"
  by (induction xs) (simp_all add: sort_cmp_def set_insort_cmp)

lemma distinct_map_insort_cmp:
  "distinct (map f (insort_cmp cmp x ys)) = (f x \<notin> f ` set ys \<and> distinct (map f ys))"
  by (induction ys) (auto simp: set_insort_cmp)

lemma distinct_map_sort_cmp: "distinct (map f (sort_cmp cmp xs)) = distinct (map f xs)"
  by (induction xs) (simp_all add: sort_cmp_def distinct_map_insort_cmp set_sort_cmp [unfolded sort_cmp_def])

lemma set_sort_by_score: "set (sort_by_score xs) = set xs"
  by (simp add: sort_by_score_def set_sort_cmp)

lemma distinct_map_sort: "distinct (map f (sort_by_score xs)) = distinct (map f xs)"
  by (simp add: sort_by_score_def distinct_map_sort_cmp)

lemma score_ge_trans: "score_ge a b \<Longrightarrow> score_ge b c \<Longrightarrow> score_ge a c"
  by (auto simp: score_ge_def split: jsnum.splits)

lemma compare_score_gt:
  "score x \<noteq> NaN \<Longrightarrow> score y \<noteq> NaN \<Longrightarrow>
   (jgt (compare_score x y) 0 \<longrightarrow> score_ge y x) \<and> (\<not> jgt (compare_score x y) 0 \<longrightarrow> score_ge x y)"
  by (auto simp: compare_score_def jminus_def jgt_def score_ge_def split: jsnum.splits)

lemma sorted_insort_score:
  "score x \<noteq> NaN \<Longrightarrow> \<forall>y\<in>set ys. score y \<noteq> NaN \<Longrightarrow> sorted_wrt score_ge ys \<Longrightarrow>
   sorted_wrt score_ge (insort_cmp compare_score x ys)"
proof (induction ys)
  case Nil
  then show ?case by simp
next
  case (Cons y ys)
  show ?case
  proof (cases "jgt (compare_score x y) 0")
    case True
    with Cons.prems have "score_ge y x" using compare_score_gt [of x y] by simp
    with True Cons show ?thesis by (auto simp: set_insort_cmp)
  next
    case False
    with Cons.prems have xy: "score_ge x y" using compare_score_gt [of x y] by simp
    with Cons.prems have "\<forall>z\<in>set ys. score_ge x z" by (auto intro: score_ge_trans)
    with False xy Cons.prems show ?thesis by simp
  qed
qed

lemma sorted_sort_by_score:
  "\<forall>c\<in>set xs. score c \<noteq> NaN \<Longrightarrow> sorted_wrt score_ge (sort_by_score xs)"
proof (induction xs)
  case Nil
  then show ?case by (simp add: sort_by_score_def sort_cmp_def)
next
  case (Cons x xs)
  then have "sorted_wrt score_ge (sort_by_score xs)" by simp
  moreover have "\<forall>y\<in>set (sort_by_score xs). score y \<noteq> NaN"
    using Cons.prems by (simp add: set_sort_by_score)
  moreover have "score x \<noteq> NaN" using Cons.prems by simp
  ultimately have "sorted_wrt score_ge (insort_cmp compare_score x (sort_by_score xs))"
    by (intro sorted_insort_score)
  then show ?case by (simp add: sort_by_score_def sort_cmp_def)
qed

lemma find_append_Some: "find P xs = Some d \<Longrightarrow> find P (xs @ ys) = Some d"
  by (induction xs) (auto split: if_splits)

subsection \<open>The handlers that only log\<close>

lemma try_catch_warn: "try_catch body console_warn = (None, snd body)"
  by (cases body) (auto simp: try_catch_def console_warn_def split: option.splits)

lemma scan_statement_completes: "scan_statement e chain n = (None, scan_collect e chain n)"
  by (simp add: scan_collect_def scan_statement_def try_catch_warn)

lemma scanOpportunities_returns:
  "scanOpportunities e chain n =
   Inr (slice0 n (sort_by_score (uniqueOpportunities (opportunities (scan_collect e chain n)))))"
  by (simp add: scanOpportunities_def scan_statement_completes)

subsection \<open>The loops only append, the boosted candidates first\<close>

lemma boosted_item_appends:
  "\<exists>ys. opportunities (snd (boosted_item_try e i token st)) = opportunities st @ ys
        \<and> (\<forall>c\<in>set ys. source c = ''dexscreener-boosted'')"
  by (auto simp: boosted_item_try_def boosted_candidate_def Let_def split: sum.splits list.splits)

lemma boosted_loop_step:
  "boosted_loop e i (token # rest) st = boosted_loop e (Suc i) rest (snd (boosted_item_try e i token st))"
  by (simp add: try_catch_warn)

lemma boosted_loop_appends:
  "fst (boosted_loop e i tokens st) = None \<and>
   (\<exists>ys. opportunities (snd (boosted_loop e i tokens st)) = opportunities st @ ys
        \<and> (\<forall>c\<in>set ys. source c = ''dexscreener-boosted''))"
proof (induction tokens arbitrary: i st)
  case Nil
  then show ?case by simp
next
  case (Cons token rest)
  let ?st = "snd (boosted_item_try e i token st)"
  obtain ys where ys: "opportunities ?st = opportunities st @ ys"
      "\<forall>c\<in>set ys. source c = ''dexscreener-boosted''"
    using boosted_item_appends by blast
  from Cons.IH [of "Suc i" ?st] obtain zs where
      n: "fst (boosted_loop e (Suc i) rest ?st) = None" and
      zs: "opportunities (snd (boosted_loop e (Suc i) rest ?st)) = opportunities ?st @ zs"
      "\<forall>c\<in>set zs. source c = ''dexscreener-boosted''"
    by blast
  have "opportunities (snd (boosted_loop e i (token # rest) st)) = opportunities st @ (ys @ zs)"
    using ys zs by (simp only: boosted_loop_step) simp
  moreover have "\<forall>c\<in>set (ys @ zs). source c = ''dexscreener-boosted''"
    using ys zs by auto
  moreover have "fst (boosted_loop e i (token # rest) st) = None"
    using n by (simp only: boosted_loop_step)
  ultimately show ?case by blast
qed

lemma trending_loop_step:
  "trending_loop h (pool # rest) ops =
     (if 10 < length (extracted_address pool) then
        (case attributes pool of
           None \<Rightarrow> (Some (Error ''Cannot read properties of undefined''), ops)
         | Some attr \<Rightarrow>
             trending_loop h rest (ops @ [gecko_candidate h (extracted_address pool) attr]))
      else trending_loop h rest ops)"
  unfolding extracted_address_def by (auto simp: Let_def)

lemma trending_loop_appends:
  "\<exists>zs. snd (trending_loop h pools ops) = ops @ zs
        \<and> (\<forall>c\<in>set zs. source c = ''geckoterminal-trending'')"
proof (induction pools arbitrary: ops)
  case Nil
  then show ?case by simp
next
  case (Cons pool rest)
  show ?case
  proof (cases "10 < length (extracted_address pool)")
    case False
    then have "trending_loop h (pool # rest) ops = trending_loop h rest ops"
      by (simp only: trending_loop_step if_False)
    with Cons.IH show ?thesis by simp
  next
    case True
    show ?thesis
    proof (cases "attributes pool")
      case None
      with True have "snd (trending_loop h (pool # rest) ops) = ops @ []"
        by (simp only: trending_loop_step) simp
      then show ?thesis by force
    next
      case (Some attr)
      let ?c = "gecko_candidate h (extracted_address pool) attr"
      from Some True have eq: "trending_loop h (pool # rest) ops = trending_loop h rest (ops @ [?c])"
        by (simp only: trending_loop_step) simp
      obtain zs where zs: "snd (trending_loop h rest (ops @ [?c])) = (ops @ [?c]) @ zs"
        "\<forall>c\<in>set zs. source c = ''geckoterminal-trending''"
        using Cons.IH by blast
      have "source ?c = ''geckoterminal-trending''" by (simp add: gecko_candidate_def)
      with zs eq have "snd (trending_loop h (pool # rest) ops) = ops @ (?c # zs)
          \<and> (\<forall>c\<in>set (?c # zs). source c = ''geckoterminal-trending'')"
        by simp
      then show ?thesis by blast
    qed
  qed
qed

lemma trending_try_appends:
  "\<exists>zs. opportunities (snd (trending_try e n st)) = opportunities st @ zs
        \<and> (\<forall>c\<in>set zs. source c = ''geckoterminal-trending'')"
proof (cases "fetch_trending e")
  case (Inl x)
  then show ?thesis by (simp add: trending_try_def Let_def)
next
  case (Inr data)
  obtain zs where zs:
     "snd (trending_loop (host e) (slice0 n data) (opportunities st)) = opportunities st @ zs"
     "\<forall>c\<in>set zs. source c = ''geckoterminal-trending''"
    using trending_loop_appends by blast
  with Inr have "opportunities (snd (trending_try e n st)) = opportunities st @ zs"
    by (cases "trending_loop (host e) (slice0 n data) (opportunities st)")
       (simp add: trending_try_def Let_def)
  with zs show ?thesis by blast
qed

lemma scan_collect_boosted_ok:
  "fetch_boosted e = Inr boostedData \<Longrightarrow>
   scan_collect e chain n =
   snd (trending_try e n (snd (boosted_loop e 0
     (slice0 n (filter (\<lambda>t. chainId t = Some ''solana'') boostedData))
     \<lparr>opportunities = [], requests = [boosted_url]\<rparr>)))"
proof -
  assume b: "fetch_boosted e = Inr boostedData"
  let ?st0 = "\<lparr>opportunities = [], requests = [boosted_url]\<rparr>"
  let ?toks = "slice0 n (filter (\<lambda>t. chainId t = Some ''solana'') boostedData)"
  obtain st1 where l: "boosted_loop e 0 ?toks ?st0 = (None, st1)"
    using boosted_loop_appends [of e 0 ?toks ?st0] by (cases "boosted_loop e 0 ?toks ?st0") auto
  with b show ?thesis
    by (simp add: scan_collect_def scan_statement_def scan_try_def Let_def try_catch_warn)
qed

lemma scan_collect_boosted_down:
  "fetch_boosted e = Inl x \<Longrightarrow>
   scan_collect e chain n = \<lparr>opportunities = [], requests = [boosted_url]\<rparr>"
  by (simp add: scan_collect_def scan_statement_def scan_try_def Let_def try_catch_warn)

lemma collected_order:
  "\<exists>bs ts. opportunities (scan_collect e chain n) = bs @ ts
     \<and> (\<forall>c\<in>set bs. source c = ''dexscreener-boosted'')
     \<and> (\<forall>c\<in>set ts. source c = ''geckoterminal-trending'')"
proof (cases "fetch_boosted e")
  case (Inl x)
  then have "opportunities (scan_collect e chain n) = [] @ []"
    by (simp add: scan_collect_boosted_down)
  then show ?thesis by force
next
  case (Inr boostedData)
  let ?st0 = "\<lparr>opportunities = [], requests = [boosted_url]\<rparr>"
  let ?st1 = "snd (boosted_loop e 0 (slice0 n (filter (\<lambda>t. chainId t = Some ''solana'') boostedData)) ?st0)"
  obtain bs where bs: "opportunities ?st1 = opportunities ?st0 @ bs"
      "\<forall>c\<in>set bs. source c = ''dexscreener-boosted''"
    using boosted_loop_appends by blast
  obtain ts where ts: "opportunities (snd (trending_try e n ?st1)) = opportunities ?st1 @ ts"
     "\<forall>c\<in>set ts. source c = ''geckoterminal-trending''"
    using trending_try_appends by blast
  from Inr have "opportunities (scan_collect e chain n) = opportunities (snd (trending_try e n ?st1))"
    by (simp only: scan_collect_boosted_ok)
  with bs ts have "opportunities (scan_collect e chain n) = bs @ ts" by simp
  with bs ts show ?thesis by blast
qed

subsection \<open>When the scores are numbers\<close>

text \<open>
  The primary scorer never returns a negative number. The secondary scorer returns a
  number that is not negative unless line 169 adds a string to the running total.
\<close>

lemma primary_score_nonnegative: "0 \<le> calculateOpportunityScore pair"
  by (simp add: calculateOpportunityScore_def Let_def)

lemma add_num: "is_num a \<Longrightarrow> is_num b \<Longrightarrow> is_num (js_add h a b)"
  by (auto simp: is_num_def js_add_def is_string_def to_number_def jplus_def)

lemma sub_num: "is_num a \<Longrightarrow> is_num b \<Longrightarrow> is_num (js_sub h a b)"
  by (auto simp: is_num_def js_sub_def to_number_def jminus_def)

lemma mul_guard: "js_gt h v k \<Longrightarrow> is_num (js_mul h v (JNumber (Num c)))"
  by (auto simp: is_num_def js_mul_def js_gt_def jgt_def to_number_def jtimes_def split: jsnum.splits)

lemma guard_num: "js_gt h v k \<Longrightarrow> \<not> is_string v \<Longrightarrow> is_num v"
  by (auto simp: is_num_def js_gt_def jgt_def to_number_def is_string_def split: jsnum.splits jsval.splits)

lemma literal_num: "is_num (JNumber (Num c))"
  by (simp add: is_num_def)

lemma max_num: "is_num v \<Longrightarrow> nonnegative (math_max0 h v)"
  by (auto simp: is_num_def math_max0_def to_number_def nonnegative_def)

lemma gecko_score_nonnegative:
  assumes "\<not> (is_string (g_h6 (or_gecko_change (price_change_percentage attr)))
      \<and> js_gt h (g_h6 (or_gecko_change (price_change_percentage attr))) 0
      \<and> js_lt h (g_h6 (or_gecko_change (price_change_percentage attr))) 50)"
  shows "nonnegative (calculateGeckoScore h attr)"
proof -
  define pc where "pc = or_gecko_change (price_change_percentage attr)"
  define liq where "liq = parseFloat h (or_str (reserve_in_usd attr) ''0'')"
  define vol where "vol = parseFloat h (or_str (volume_usd_h24 attr) ''0'')"
  define s1 where "s1 = (if js_gt h (g_h1 pc) 0 \<and> js_lt h (g_h1 pc) 30
     then js_add h (JNumber (Num 0)) (js_mul h (g_h1 pc) (JNumber (Num 2))) else JNumber (Num 0))"
  define s2 where "s2 = (if js_gt h (g_h6 pc) 0 \<and> js_lt h (g_h6 pc) 50
     then js_add h s1 (g_h6 pc) else s1)"
  define s3 where "s3 = (if jgt (jdiv vol (or_jsnum liq 1)) 2
     then js_add h s2 (JNumber (Num 20)) else s2)"
  define s4 where "s4 = js_add h s3 (JNumber (Num 10))"
  define s5 where "s5 = (if js_lt h (g_h1 pc) (- 15) then js_sub h s4 (JNumber (Num 20)) else s4)"
  define s6 where "s6 = (if jlt liq 15000 then js_sub h s5 (JNumber (Num 10)) else s5)"
  have n1: "is_num s1"
    unfolding s1_def by (auto intro!: add_num literal_num intro: mul_guard)
  have n2: "is_num s2"
  proof (cases "js_gt h (g_h6 pc) 0 \<and> js_lt h (g_h6 pc) 50")
    case True
    with assms have "\<not> is_string (g_h6 pc)" by (simp add: pc_def)
    with True have "is_num (g_h6 pc)" by (blast intro: guard_num)
    with True n1 show ?thesis by (auto simp: s2_def intro: add_num)
  next
    case False
    with n1 show ?thesis by (auto simp: s2_def)
  qed
  have n3: "is_num s3" unfolding s3_def using n2 by (simp add: add_num literal_num)
  have n4: "is_num s4" unfolding s4_def using n3 by (simp add: add_num literal_num)
  have n5: "is_num s5" unfolding s5_def using n4 by (simp add: sub_num literal_num)
  have n6: "is_num s6" unfolding s6_def using n5 by (simp add: sub_num literal_num)
  have "calculateGeckoScore h attr = math_max0 h s6"
    unfolding calculateGeckoScore_def Let_def s6_def s5_def s4_def s3_def s2_def s1_def pc_def
      liq_def vol_def ..
  with n6 show ?thesis by (simp add: max_num)
qed

subsection \<open>The concrete payloads, evaluated\<close>

lemma parse_50000: "parseFloat_digits ''50000'' = Num 50000"
  by (simp add: parseFloat_digits_def)

lemma parse_200000: "parseFloat_digits ''200000'' = Num 200000"
  by (simp add: parseFloat_digits_def)

lemma toNumber_values:
  "toNumber_decimal ''1.2'' = Num (6 / 5)" "toNumber_decimal ''5.3'' = Num (53 / 10)"
  "toNumber_decimal ''10'' = Num 10" "toNumber_decimal ''20'' = Num 20"
  "toNumber_decimal ''2.45.32010'' = NaN" "toNumber_decimal ''20202010'' = Num 20202010"
  by (simp_all add: toNumber_decimal_def is_digit_def)

lemma numToString_values:
  "numToString_table 0 = ''0''" "numToString_table (12 / 5) = ''2.4''"
  "numToString_table 10 = ''10''" "numToString_table 20 = ''20''"
  by (simp_all add: numToString_table_def)

lemma host_stub_fields:
  "parseFloat host_stub = parseFloat_digits" "toNumber host_stub = toNumber_decimal"
  "numToString host_stub = numToString_table"
  by (simp_all add: host_stub_def)

lemma score_pair_fdv0: "calculateOpportunityScore pair_fdv0 = 20"
  by code_simp

lemma score_attr_hot: "calculateGeckoScore host_stub attr_hot = Num 70"
  by (simp add: calculateGeckoScore_def attr_hot_def or_str_def host_stub_fields parse_50000
      parse_200000 or_gecko_change_def js_gt_def js_lt_def jgt_def jlt_def jdiv_def or_jsnum_def
      js_add_def js_sub_def js_mul_def is_string_def to_number_def jplus_def jtimes_def
      math_max0_def)

lemma score_attr_a: "calculateGeckoScore host_stub attr_a = NaN"
  by (simp add: calculateGeckoScore_def attr_a_def or_str_def host_stub_fields parse_50000
      parse_200000 or_gecko_change_def js_gt_def js_lt_def jgt_def jlt_def jdiv_def or_jsnum_def
      js_add_def js_sub_def js_mul_def is_string_def to_number_def to_string_def jplus_def
      jtimes_def math_max0_def toNumber_values numToString_values)

lemma score_attr_b: "calculateGeckoScore host_stub attr_b = Num 20202010"
  by (simp add: calculateGeckoScore_def attr_b_def or_str_def host_stub_fields parse_50000
      parse_200000 or_gecko_change_def js_gt_def js_lt_def jgt_def jlt_def jdiv_def or_jsnum_def
      js_add_def js_sub_def js_mul_def is_string_def to_number_def to_string_def jplus_def
      jtimes_def math_max0_def toNumber_values numToString_values)

lemma cand_boosted_fields:
  "mint cand_boosted = Some ''ABCDEFGHIJK''" "score cand_boosted = Num 20"
  "source cand_boosted = ''dexscreener-boosted''"
  by (simp_all add: cand_boosted_def boosted_candidate_def token11_def score_pair_fdv0)

lemma cand_same_fields:
  "mint cand_same = Some ''ABCDEFGHIJK''" "score cand_same = Num 70"
  "source cand_same = ''geckoterminal-trending''"
  by (simp_all add: cand_same_def gecko_candidate_def score_attr_hot)

lemma cand_other_fields:
  "mint cand_other = Some ''ABCDEFGHIJKL''" "score cand_other = Num 70"
  "source cand_other = ''geckoterminal-trending''"
  by (simp_all add: cand_other_def gecko_candidate_def score_attr_hot)

lemma cand_a_fields:
  "mint cand_a = Some ''AAAAAAAAAAAA''" "score cand_a = NaN"
  by (simp_all add: cand_a_def gecko_candidate_def score_attr_a)

lemma cand_b_fields:
  "mint cand_b = Some ''BBBBBBBBBBBB''" "score cand_b = Num 20202010"
  by (simp_all add: cand_b_def gecko_candidate_def score_attr_b)

lemma address_pool10: "extracted_address pool10 = ''ABCDEFGHIJ''"
  by (simp add: extracted_address_def pool10_def or_str_def)

lemma address_pool11: "extracted_address pool11 = ''ABCDEFGHIJK''"
  by (simp add: extracted_address_def pool11_def or_str_def)

lemma address_pool12: "extracted_address pool12 = ''ABCDEFGHIJKL''"
  by (simp add: extracted_address_def pool12_def or_str_def)

lemma address_pool_a: "extracted_address pool_a = ''AAAAAAAAAAAA''"
  by (simp add: extracted_address_def pool_a_def or_str_def)

lemma address_pool_b: "extracted_address pool_b = ''BBBBBBBBBBBB''"
  by (simp add: extracted_address_def pool_b_def or_str_def)

lemma attributes_pools:
  "attributes pool10 = Some attr_hot" "attributes pool11 = Some attr_hot"
  "attributes pool12 = Some attr_hot" "attributes pool_a = Some attr_a"
  "attributes pool_b = Some attr_b"
  by (simp_all add: pool10_def pool11_def pool12_def pool_a_def pool_b_def)

lemma loop_pools:
  "trending_loop host_stub [pool11, pool12] ops = (None, ops @ [cand_same, cand_other])"
  by (simp add: trending_loop_step address_pool11 address_pool12 attributes_pools
      cand_same_def cand_other_def del: trending_loop.simps(2))

lemma loop_pools_strings:
  "trending_loop host_stub [pool_a, pool_b] ops = (None, ops @ [cand_a, cand_b])"
  by (simp add: trending_loop_step address_pool_a address_pool_b attributes_pools
      cand_a_def cand_b_def del: trending_loop.simps(2))

lemma loop_pool10: "trending_loop host_stub [pool10] ops = (None, ops)"
  by (simp add: trending_loop_step address_pool10 del: trending_loop.simps(2))

lemma slice0_5: "slice0 5 [x] = [x]" "slice0 5 [x, y] = [x, y]" "slice0 5 [x, y, z] = [x, y, z]"
  by (simp_all add: slice0_def)

lemma env_scan_fields:
  "host env_scan = host_stub" "fetch_boosted env_scan = Inr [token11]"
  "fetch_token env_scan i url = Inr [pair_fdv0]" "fetch_trending env_scan = Inr [pool11, pool12]"
  by (simp_all add: env_scan_def)

lemma env_boosted_down_fields:
  "host env_boosted_down = host_stub"
  "fetch_boosted env_boosted_down = Inl (Error ''fetch failed'')"
  "fetch_trending env_boosted_down = Inr [pool11, pool12]"
  by (simp_all add: env_boosted_down_def env_scan_def)

lemma env_strings_fields:
  "host env_strings = host_stub" "fetch_boosted env_strings = Inr [token11]"
  "fetch_token env_strings i url = Inr [pair_fdv0]" "fetch_trending env_strings = Inr [pool_a, pool_b]"
  by (simp_all add: env_strings_def env_scan_def)

lemma chain_token11: "chainId token11 = Some ''solana''"
  by (simp add: token11_def)

lemma collected_env_scan:
  "opportunities (scan_collect env_scan chain 5) = [cand_boosted, cand_same, cand_other]"
  by (simp add: scan_collect_boosted_ok [OF env_scan_fields(2)] chain_token11 slice0_5
      boosted_loop_step boosted_item_try_def env_scan_fields trending_try_def loop_pools
      cand_boosted_def Let_def del: trending_loop.simps(2) boosted_loop.simps(2))

lemma collected_env_strings:
  "opportunities (scan_collect env_strings chain 5) = [cand_boosted, cand_a, cand_b]"
  by (simp add: scan_collect_boosted_ok [OF env_strings_fields(2)] chain_token11 slice0_5
      boosted_loop_step boosted_item_try_def env_strings_fields trending_try_def
      loop_pools_strings cand_boosted_def Let_def
      del: trending_loop.simps(2) boosted_loop.simps(2))

lemma unique_env_scan:
  "uniqueOpportunities [cand_boosted, cand_same, cand_other] = [cand_boosted, cand_other]"
  by (simp add: uniqueOpportunities_def enumerate_simps cand_boosted_fields cand_same_fields
      cand_other_fields)

lemma unique_env_strings:
  "uniqueOpportunities [cand_boosted, cand_a, cand_b] = [cand_boosted, cand_a, cand_b]"
  by (simp add: uniqueOpportunities_def enumerate_simps cand_boosted_fields cand_a_fields
      cand_b_fields)

lemma sort_env_scan: "sort_by_score [cand_boosted, cand_other] = [cand_other, cand_boosted]"
  by (simp add: sort_by_score_def sort_cmp_def compare_score_def jminus_def jgt_def
      cand_boosted_fields cand_other_fields)

lemma sort_env_strings:
  "sort_by_score [cand_boosted, cand_a, cand_b] = [cand_boosted, cand_a, cand_b]"
  by (simp add: sort_by_score_def sort_cmp_def compare_score_def jminus_def jgt_def
      cand_boosted_fields cand_a_fields cand_b_fields)

lemma scan_env_scan: "scanOpportunities env_scan chain 5 = Inr [cand_other, cand_boosted]"
  by (simp add: scanOpportunities_returns collected_env_scan unique_env_scan sort_env_scan slice0_5)

lemma scan_env_strings: "scanOpportunities env_strings chain 5 = Inr [cand_boosted, cand_a, cand_b]"
  by (simp add: scanOpportunities_returns collected_env_strings unique_env_strings
      sort_env_strings slice0_5)

lemma scan_env_boosted_down: "scanOpportunities env_boosted_down chain 5 = Inr []"
  by (simp add: scanOpportunities_returns scan_collect_boosted_down [OF env_boosted_down_fields(2)]
      uniqueOpportunities_def sort_by_score_def sort_cmp_def slice0_def)

lemma requests_env_boosted_down: "scan_requests env_boosted_down chain 5 = [boosted_url]"
  by (simp add: scan_requests_def scan_collect_boosted_down [OF env_boosted_down_fields(2)])

subsection \<open>Fault isolation between the two providers\<close>

text \<open>
  The \<^verbatim>\<open>try\<close> around the trending pools isolates a failure of that provider: the
  candidates of the boosted tokens stay in \<^verbatim>\<open>opportunities\<close>. The request for the boosted
  tokens has no \<^verbatim>\<open>try\<close> of its own, so its failure goes to the outer \<^verbatim>\<open>catch\<close>.
\<close>

lemma trending_failure_keeps_boosted:
  "fetch_trending e = Inl x \<Longrightarrow> fetch_boosted e = Inr boostedData \<Longrightarrow>
   opportunities (scan_collect e chain n) =
   opportunities (snd (boosted_loop e 0
     (slice0 n (filter (\<lambda>t. chainId t = Some ''solana'') boostedData))
     \<lparr>opportunities = [], requests = [boosted_url]\<rparr>))"
  by (simp add: scan_collect_boosted_ok trending_try_def Let_def)

lemma boosted_failure_empty:
  "fetch_boosted e = Inl x \<Longrightarrow>
   scanOpportunities e chain n = Inr [] \<and> scan_requests e chain n = [boosted_url]"
  by (simp add: scanOpportunities_returns scan_requests_def scan_collect_boosted_down
      uniqueOpportunities_def sort_by_score_def sort_cmp_def slice0_def)

text \<open>
  C1. If the top-level request of one provider fails, the candidates of the other provider
  are still in the result, whichever provider failed. The code does not do this when the
  failing provider is the boosted one: in \<open>env_boosted_down\<close> the request for the boosted
  tokens throws and the trending provider would answer two pools, from which the
  trending loop builds two candidates; the scan never requests them and returns the
  empty list.
\<close>

theorem boosted_failure_cancels_trending:
  "fetch_boosted env_boosted_down = Inl (Error ''fetch failed'') \<and>
   fetch_trending env_boosted_down = Inr [pool11, pool12] \<and>
   snd (trending_loop (host env_boosted_down) [pool11, pool12] []) = [cand_same, cand_other] \<and>
   scanOpportunities env_boosted_down ''solana'' 5 = Inr [] \<and>
   scan_requests env_boosted_down ''solana'' 5 = [boosted_url]"
  by (simp only: env_boosted_down_fields loop_pools scan_env_boosted_down
      requests_env_boosted_down) simp

subsection \<open>The early-stage bonus\<close>

text \<open>The bonus, band by band; a valuation of 0 or less falls into the second branch.\<close>

lemma early_stage_bands:
  "0 < x \<Longrightarrow> x < 500000 \<Longrightarrow> earlyStageBonus x = 30"
  "500000 \<le> x \<Longrightarrow> x < 2000000 \<Longrightarrow> earlyStageBonus x = 20"
  "2000000 \<le> x \<Longrightarrow> x < 10000000 \<Longrightarrow> earlyStageBonus x = 10"
  "10000000 \<le> x \<Longrightarrow> earlyStageBonus x = 0"
  "x \<le> 0 \<Longrightarrow> earlyStageBonus x = 20"
  by (simp_all add: earlyStageBonus_def)

text \<open>
  C2. The early-stage bonus is +30 for \<open>0 < fdv < 500000\<close>, +20 for
  \<open>500000 \<le> fdv < 2000000\<close>, +10 for \<open>2000000 \<le> fdv < 10000000\<close> and +0 for
  \<open>fdv \<ge> 10000000\<close> or \<open>fdv = 0\<close>. The code gives the bands of a positive valuation
  (\<open>early_stage_bands\<close>), but at \<open>fdv = 0\<close> the first guard fails on \<open>fdv > 0\<close> and the
  second branch, \<open>fdv < 2000000\<close>, adds 20: the pair \<open>pair_fdv0\<close>, which earns nothing
  else, scores 20.
\<close>

theorem early_stage_bonus_at_zero:
  "or_num (pair_fdv pair_fdv0) 0 = 0 \<and> earlyStageBonus 0 = 20 \<and>
   calculateOpportunityScore pair_fdv0 = 20"
proof (intro conjI)
  show "or_num (pair_fdv pair_fdv0) 0 = 0" by (simp add: or_num_def pair_fdv0_def)
  show "earlyStageBonus 0 = 20" by (simp add: earlyStageBonus_def)
  show "calculateOpportunityScore pair_fdv0 = 20" by (rule score_pair_fdv0)
qed

subsection \<open>Duplicates\<close>

text \<open>
  C3. \<open>scanOpportunities\<close> returns the first \<open>maxResults\<close> elements of an array \<open>kept\<close>
  that holds exactly the candidates of \<^verbatim>\<open>opportunities\<close> that are the first with their
  mint: every mint collected is in \<open>kept\<close>, once. So the result has no two candidates with
  the same mint, and each of its candidates is the first one with its mint in
  \<^verbatim>\<open>opportunities\<close>, where the candidates of the boosted tokens come before those of the
  trending pools: when a boosted candidate has the mint, the candidate kept is a boosted
  one, whatever the scores.
\<close>

theorem scan_first_occurrence:
  "\<exists>out kept.
     scanOpportunities e chain n = Inr out \<and> out = slice0 n kept \<and>
     set kept = first_occurrences (opportunities (scan_collect e chain n)) \<and>
     mint ` set kept = mint ` set (opportunities (scan_collect e chain n)) \<and>
     distinct (map mint kept) \<and>
     distinct (map mint out) \<and>
     (\<forall>c\<in>set out.
        find (\<lambda>x. mint x = mint c) (opportunities (scan_collect e chain n)) = Some c \<and>
        (\<forall>b\<in>set (opportunities (scan_collect e chain n)).
           mint b = mint c \<and> source b = ''dexscreener-boosted'' \<longrightarrow>
           source c = ''dexscreener-boosted''))"
proof -
  let ?all = "opportunities (scan_collect e chain n)"
  let ?kept = "sort_by_score (uniqueOpportunities ?all)"
  let ?out = "slice0 n ?kept"
  have r: "scanOpportunities e chain n = Inr ?out" by (rule scanOpportunities_returns)
  have k: "set ?kept = first_occurrences ?all" by (simp add: set_sort_by_score set_unique)
  then have m: "mint ` set ?kept = mint ` set ?all" by (simp add: mint_first_occurrences)
  have d: "distinct (map mint ?kept)" by (simp add: distinct_map_sort unique_distinct)
  then have d': "distinct (map mint ?out)" by (rule distinct_map_slice0)
  have a: "\<forall>c\<in>set ?out.
        find (\<lambda>x. mint x = mint c) ?all = Some c \<and>
        (\<forall>b\<in>set ?all. mint b = mint c \<and> source b = ''dexscreener-boosted'' \<longrightarrow>
           source c = ''dexscreener-boosted'')"
  proof (intro ballI conjI impI)
    fix c assume "c \<in> set ?out"
    then have "c \<in> set ?kept" by (rule subsetD [OF set_slice0])
    with k show first: "find (\<lambda>x. mint x = mint c) ?all = Some c"
      by (simp add: first_occurrences_def)
    fix b assume b: "b \<in> set ?all" and h: "mint b = mint c \<and> source b = ''dexscreener-boosted''"
    obtain bs ts where o: "?all = bs @ ts" "\<forall>c\<in>set bs. source c = ''dexscreener-boosted''"
        "\<forall>c\<in>set ts. source c = ''geckoterminal-trending''"
      using collected_order by blast
    from b h o have "b \<in> set bs" by auto
    with h have "find (\<lambda>x. mint x = mint c) bs \<noteq> None"
      by (auto simp: find_None_iff)
    then obtain d where d: "find (\<lambda>x. mint x = mint c) bs = Some d" by blast
    with first o have "d = c" by (simp add: find_append_Some)
    with d have "c \<in> set bs" by (auto simp: find_Some_iff)
    with o show "source c = ''dexscreener-boosted''" by blast
  qed
  show ?thesis
    apply (rule exI [of _ ?out])
    apply (rule exI [of _ ?kept])
    apply (intro conjI)
          apply (rule r)
         apply (rule refl)
        apply (rule k)
       apply (rule m)
      apply (rule d)
     apply (rule d')
    apply (rule a)
    done
qed

text \<open>
  In \<open>env_scan\<close> the boosted token and the first trending pool have the same mint; the
  boosted candidate scores 20, the trending one 70, and the boosted one is kept, with the
  candidate of the other mint.
\<close>

theorem scan_first_occurrence_witness:
  "scanOpportunities env_scan ''solana'' 5 = Inr [cand_other, cand_boosted] \<and>
   opportunities (scan_collect env_scan ''solana'' 5) = [cand_boosted, cand_same, cand_other] \<and>
   mint cand_same = mint cand_boosted \<and> score cand_boosted = Num 20 \<and> score cand_same = Num 70 \<and>
   cand_same \<noteq> cand_boosted \<and> cand_same \<noteq> cand_other \<and>
   first_occurrences [cand_boosted, cand_same, cand_other] = {cand_boosted, cand_other} \<and>
   find (\<lambda>x. mint x = mint cand_boosted) [cand_boosted, cand_same, cand_other] = Some cand_boosted"
proof -
  have s: "scanOpportunities env_scan ''solana'' 5 = Inr [cand_other, cand_boosted]"
    by (rule scan_env_scan)
  have c: "opportunities (scan_collect env_scan ''solana'' 5) = [cand_boosted, cand_same, cand_other]"
    by (rule collected_env_scan)
  have "source cand_same \<noteq> source cand_boosted" "mint cand_same \<noteq> mint cand_other"
    by (simp_all add: cand_same_fields cand_boosted_fields cand_other_fields)
  then have n: "cand_same \<noteq> cand_boosted" "cand_same \<noteq> cand_other" by auto
  have f: "mint cand_same = mint cand_boosted" "score cand_boosted = Num 20" "score cand_same = Num 70"
    by (simp_all add: cand_same_fields cand_boosted_fields)
  from scan_first_occurrence [of env_scan "''solana''" 5] obtain out kept where
      o: "scanOpportunities env_scan ''solana'' 5 = Inr out" "out = slice0 5 kept"
         "set kept = first_occurrences (opportunities (scan_collect env_scan ''solana'' 5))"
      and a: "\<forall>c\<in>set out.
         find (\<lambda>x. mint x = mint c) (opportunities (scan_collect env_scan ''solana'' 5)) = Some c"
    by blast
  from o s have out: "out = [cand_other, cand_boosted]" by simp
  with a c have fb: "find (\<lambda>x. mint x = mint cand_boosted) [cand_boosted, cand_same, cand_other]
      = Some cand_boosted" by simp
  from out o have "{cand_other, cand_boosted} \<subseteq> set kept" using set_slice0 [of 5 kept] by auto
  with o c have sub: "{cand_boosted, cand_other} \<subseteq> first_occurrences [cand_boosted, cand_same, cand_other]"
    by auto
  have "first_occurrences [cand_boosted, cand_same, cand_other] \<subseteq> {cand_boosted, cand_other}"
    using n f by (auto simp: first_occurrences_def)
  with sub have fo: "first_occurrences [cand_boosted, cand_same, cand_other] = {cand_boosted, cand_other}"
    by blast
  from s c f n fo fb show ?thesis by blast
qed

subsection \<open>Order and length of the result\<close>

text \<open>
  The result has at most \<open>maxResults\<close> elements, and it is in descending order of score
  when no score collected is \<^verbatim>\<open>NaN\<close>.
\<close>

lemma scan_length_bounded:
  "0 \<le> n \<Longrightarrow> scanOpportunities e chain n = Inr out \<Longrightarrow> int (length out) \<le> n"
  by (auto simp: scanOpportunities_returns length_slice0)

lemma scan_sorted_numeric:
  "\<forall>c\<in>set (opportunities (scan_collect e chain n)). score c \<noteq> NaN \<Longrightarrow>
   scanOpportunities e chain n = Inr out \<Longrightarrow> sorted_wrt score_ge out"
proof -
  assume a: "\<forall>c\<in>set (opportunities (scan_collect e chain n)). score c \<noteq> NaN"
    and o: "scanOpportunities e chain n = Inr out"
  let ?u = "uniqueOpportunities (opportunities (scan_collect e chain n))"
  have "set ?u \<subseteq> set (opportunities (scan_collect e chain n))"
    by (auto simp: set_unique first_occurrences_def)
  with a have "\<forall>c\<in>set ?u. score c \<noteq> NaN" by blast
  then have "sorted_wrt score_ge (sort_by_score ?u)" by (rule sorted_sort_by_score)
  then have "sorted_wrt score_ge (slice0 n (sort_by_score ?u))" by (rule sorted_slice0)
  with o show ?thesis by (simp add: scanOpportunities_returns)
qed

text \<open>
  Whatever the order, an array of two or more candidates with a \<^verbatim>\<open>NaN\<close> score among
  them is not in descending order of score.
\<close>

lemma nan_score_unsorted:
  assumes c: "c \<in> set xs" and n: "score c = NaN" and l: "2 \<le> length xs"
  shows "\<not> sorted_wrt score_ge xs"
proof
  assume s: "sorted_wrt score_ge xs"
  from c obtain i where i: "i < length xs" "xs ! i = c" by (auto simp: in_set_conv_nth)
  from l obtain j where j: "j < length xs" "j \<noteq> i"
    by (cases "i = 0") (auto intro: that [of 1] that [of 0])
  have no: "\<not> score_ge c d" "\<not> score_ge d c" for d
    using n by (simp_all add: score_ge_def split: jsnum.splits)
  show False
  proof (cases "i < j")
    case True
    with s j have "score_ge (xs ! i) (xs ! j)" unfolding sorted_wrt_iff_nth_less by blast
    with i no show False by simp
  next
    case False
    with j have "j < i" by simp
    with s i have "score_ge (xs ! j) (xs ! i)" unfolding sorted_wrt_iff_nth_less by blast
    with i no show False by simp
  qed
qed

text \<open>
  C4. For a positive integer \<open>maxResults\<close>, the result of \<open>scanOpportunities\<close> is sorted by
  score in descending order and has at most \<open>maxResults\<close> elements. The length bound holds
  (\<open>scan_length_bounded\<close>); the order does not when a score is \<^verbatim>\<open>NaN\<close>, which the
  secondary scorer returns on string price changes. In \<open>env_strings\<close> the comparator
  answers \<^verbatim>\<open>NaN\<close> on each pair of neighbours, both with the second candidate, the sort moves
  nothing, and the result has the score 20 before the score 20202010; no other order of
  these three candidates would be descending (\<open>nan_score_unsorted\<close>).
\<close>

theorem scan_unsorted_on_strings:
  "scanOpportunities env_strings ''solana'' 5 = Inr [cand_boosted, cand_a, cand_b] \<and>
   score cand_boosted = Num 20 \<and> score cand_a = NaN \<and> score cand_b = Num 20202010 \<and>
   \<not> score_ge cand_boosted cand_a \<and> \<not> score_ge cand_a cand_b \<and> \<not> score_ge cand_boosted cand_b \<and>
   \<not> sorted_wrt score_ge [cand_boosted, cand_a, cand_b]"
  by (simp add: scan_env_strings cand_boosted_fields cand_a_fields cand_b_fields score_ge_def)

subsection \<open>The floor of the scores\<close>

text \<open>
  C5. The results of \<open>calculateOpportunityScore\<close> and \<open>calculateGeckoScore\<close> are never
  negative. This holds of the primary scorer (\<open>primary_score_nonnegative\<close>), and of the
  secondary scorer as long as line 169 adds a number (\<open>gecko_score_nonnegative\<close>). On
  the attributes \<open>attr_a\<close>, with the price changes \<^verbatim>\<open>h1: '1.2'\<close> and \<^verbatim>\<open>h6: '5.3'\<close> as
  strings, line 168 makes the total 2.4, line 169 makes it the string \<^verbatim>\<open>'2.45.3'\<close>,
  lines 173 and 176 append \<^verbatim>\<open>'20'\<close> and \<^verbatim>\<open>'10'\<close>, and \<^verbatim>\<open>Math.max(0, '2.45.32010')\<close> is
  \<^verbatim>\<open>NaN\<close>, which is not \<open>\<ge> 0\<close>.
\<close>

theorem gecko_score_nan_on_strings:
  "js_add host_stub (JNumber (Num (12 / 5))) (JStr ''5.3'') = JStr ''2.45.3'' \<and>
   toNumber host_stub ''2.45.32010'' = NaN \<and>
   calculateGeckoScore host_stub attr_a = NaN \<and>
   \<not> nonnegative (calculateGeckoScore host_stub attr_a)"
  by (simp add: score_attr_a nonnegative_def js_add_def is_string_def to_string_def
      host_stub_fields numToString_values toNumber_values)

subsection \<open>The volume/liquidity ratio\<close>

text \<open>
  C6 as stated, that the ratio is \<open>volume24h / max(liquidity, 1)\<close> for every non-negative
  liquidity, fails for a liquidity between 0 and 1: with volume 3/2 and liquidity 1/2 the
  code divides by 1/2 and the ratio 3 earns the +20 bonus, where the stated ratio 3/2
  earns nothing.
\<close>

theorem volLiqRatio_counterexample:
  "(0::real) \<le> 1 / 2 \<and> volLiqRatio (3 / 2) (1 / 2) \<noteq> volLiqRatio_spec (3 / 2) (1 / 2) \<and>
   volLiqBonus (volLiqRatio (3 / 2) (1 / 2)) = 20 \<and>
   volLiqBonus (volLiqRatio_spec (3 / 2) (1 / 2)) = 0"
  by (simp add: volLiqRatio_def volLiqRatio_spec_def volLiqBonus_def)

text \<open>
  C6, amended. For a non-negative liquidity the ratio of the primary scorer is
  \<open>volume24h / max(liquidity, 1)\<close> when the liquidity is 0 or at least 1, and
  \<open>volume24h / liquidity\<close> when the liquidity is strictly between 0 and 1.
\<close>

theorem volLiqRatio_amended:
  "0 \<le> liq \<Longrightarrow>
   volLiqRatio vol liq = (if liq = 0 \<or> 1 \<le> liq then volLiqRatio_spec vol liq else vol / liq)"
  by (auto simp: volLiqRatio_def volLiqRatio_spec_def max_def)

theorem volLiqRatio_amended_witness:
  "(0::real) \<le> 50000 \<and> volLiqRatio 150000 50000 = volLiqRatio_spec 150000 50000 \<and>
   (0::real) \<le> 1 / 2 \<and> volLiqRatio (3 / 2) (1 / 2) = (3 / 2) / (1 / 2)"
  using volLiqRatio_amended [of 50000 150000] volLiqRatio_amended [of "1 / 2" "3 / 2"]
  by simp

subsection \<open>The length filter of the trending loop\<close>

text \<open>
  C7 as stated, that an entry whose extracted address has 10 or more characters yields a
  candidate, fails at 10 characters: the loop tests \<open>length > 10\<close>.
\<close>

theorem trending_filter_counterexample:
  "length (extracted_address pool10) = 10 \<and> attributes pool10 = Some attr_hot \<and>
   trending_loop host_stub [pool10] [] = (None, [])"
  by (simp only: address_pool10 attributes_pools loop_pool10) simp

text \<open>
  C7, amended. The trending loop discards the entries whose extracted address has 10
  characters or fewer and yields one candidate, whose mint is the extracted address, for
  every entry whose extracted address has more than 10 characters, in the order of the
  entries, provided that each of these entries has \<^verbatim>\<open>attributes\<close>.
\<close>

theorem trending_loop_yield:
  "\<forall>p\<in>set pools. 10 < length (extracted_address p) \<longrightarrow> attributes p \<noteq> None \<Longrightarrow>
   fst (trending_loop pf pools ops) = None \<and>
   map mint (snd (trending_loop pf pools ops)) =
     map mint ops @
     map (\<lambda>p. Some (extracted_address p)) (filter (\<lambda>p. 10 < length (extracted_address p)) pools)"
proof (induction pools arbitrary: ops)
  case Nil
  then show ?case by simp
next
  case (Cons pool rest)
  then have rest: "\<forall>p\<in>set rest. 10 < length (extracted_address p) \<longrightarrow> attributes p \<noteq> None"
    by simp
  show ?case
  proof (cases "10 < length (extracted_address pool)")
    case False
    then have "trending_loop pf (pool # rest) ops = trending_loop pf rest ops"
      by (simp only: trending_loop_step if_False)
    with False Cons.IH [OF rest, of ops] show ?thesis by simp
  next
    case True
    with Cons.prems obtain attr where attr: "attributes pool = Some attr" by auto
    let ?c = "gecko_candidate pf (extracted_address pool) attr"
    from attr True have "trending_loop pf (pool # rest) ops = trending_loop pf rest (ops @ [?c])"
      by (simp only: trending_loop_step) simp
    moreover have "mint ?c = Some (extracted_address pool)" by (simp add: gecko_candidate_def)
    ultimately show ?thesis using True Cons.IH [OF rest, of "ops @ [?c]"] by simp
  qed
qed

theorem trending_loop_yield_witness:
  "length (extracted_address pool10) = 10 \<and> length (extracted_address pool11) = 11 \<and>
   length (extracted_address pool12) = 12 \<and>
   attributes pool11 = Some attr_hot \<and> attributes pool12 = Some attr_hot \<and>
   map mint (snd (trending_loop host_stub [pool10, pool11, pool12] [])) =
     [Some ''ABCDEFGHIJK'', Some ''ABCDEFGHIJKL'']"
proof -
  have h: "\<forall>p\<in>set [pool10, pool11, pool12].
             10 < length (extracted_address p) \<longrightarrow> attributes p \<noteq> None"
    by (simp add: attributes_pools)
  from trending_loop_yield [OF h, of host_stub "[]"] show ?thesis
    by (simp add: address_pool10 address_pool11 address_pool12 attributes_pools)
qed

subsection \<open>The scoring scenario\<close>

text \<open>
  C8. For \<open>fdv = 300000\<close>, \<open>m5 = 5\<close>, \<open>h1 = 10\<close>, \<open>h6 = 0\<close>, \<open>h24 = 0\<close>, liquidity 50000,
  volume 150000, 120 buys and 80 sells, \<open>calculateOpportunityScore\<close> returns 115.
\<close>

theorem score_scenario: "calculateOpportunityScore pair_scenario = 115"
  by code_simp

subsection \<open>The handler\<close>

text \<open>The three outcomes of the handler's \<^verbatim>\<open>try\<close> statement.\<close>

lemma solana_scan_on_values:
  "solana_scan_on (Inr opps) = Inr (ScanSuccess opps (length opps))"
  "solana_scan_on (Inl (Error msg)) = Inr (ScanFailure msg)"
  "solana_scan_on (Inl Thrown) = Inr (ScanFailure ''Scan failed'')"
  by (simp_all add: solana_scan_on_def try_return_def)

text \<open>
  C9. The scan operation never propagates an exception. For every environment, that is
  every combination of provider failures, and every argument, \<open>scanOpportunities\<close>
  returns an array, and the handler returns the success result with that array and its
  length. Were the awaited call to throw, the handler would return the failure result
  with the message of the error, or with \<^verbatim>\<open>'Scan failed'\<close> for a thrown value that is
  not an \<^verbatim>\<open>Error\<close>.
\<close>

theorem solana_scan_responds:
  "(\<exists>opps. scanOpportunities e (chain_or_default chain) (maxResults_or_default maxResults) = Inr opps
      \<and> solana_scan e chain maxResults = Inr (ScanSuccess opps (length opps))) \<and>
   solana_scan_on (Inr opps0) = Inr (ScanSuccess opps0 (length opps0)) \<and>
   solana_scan_on (Inl (Error msg)) = Inr (ScanFailure msg) \<and>
   solana_scan_on (Inl Thrown) = Inr (ScanFailure ''Scan failed'')"
  by (simp add: solana_scan_def scanOpportunities_returns solana_scan_on_values)

text \<open>
  With both providers answering, and with the defaults of both parameters, the result
  carries the two candidates; with the boosted request failing it is the empty success.
\<close>

theorem solana_scan_responds_witness:
  "solana_scan env_scan None None = Inr (ScanSuccess [cand_other, cand_boosted] 2) \<and>
   solana_scan env_boosted_down (Some ''solana'') (Some 5) = Inr (ScanSuccess [] 0)"
proof -
  from solana_scan_responds [of env_scan None None] obtain opps where
    a: "scanOpportunities env_scan (chain_or_default None) (maxResults_or_default None) = Inr opps"
       "solana_scan env_scan None None = Inr (ScanSuccess opps (length opps))"
    by blast
  from a(1) have "opps = [cand_other, cand_boosted]"
    by (simp add: chain_or_default_def maxResults_or_default_def scan_env_scan)
  with a(2) have 1: "solana_scan env_scan None None = Inr (ScanSuccess [cand_other, cand_boosted] 2)"
    by simp
  from solana_scan_responds [of env_boosted_down "Some ''solana''" "Some 5"] obtain opps' where
    b: "scanOpportunities env_boosted_down (chain_or_default (Some ''solana''))
          (maxResults_or_default (Some 5)) = Inr opps'"
       "solana_scan env_boosted_down (Some ''solana'') (Some 5) = Inr (ScanSuccess opps' (length opps'))"
    by blast
  from b(1) have "opps' = []"
    by (simp add: chain_or_default_def maxResults_or_default_def scan_env_boosted_down)
  with b(2) 1 show ?thesis by simp
qed

subsection \<open>The chain argument\<close>

text \<open>
  C10. The chain argument of \<open>scanOpportunities\<close> has no effect: for the same provider
  outcomes and the same \<open>maxResults\<close>, two chain strings give the same requests and the
  same result.
\<close>

theorem chain_ignored:
  "scanOpportunities e c1 n = scanOpportunities e c2 n \<and>
   scan_requests e c1 n = scan_requests e c2 n"
  by (simp add: scanOpportunities_def scan_requests_def scan_collect_def scan_statement_def
      scan_try_def)

end
